theory Spec2Isabelle
  imports Complex_Main "HOL-Library.Word" "HOL-Library.Signed_Division"
begin

section \<open>Rewindable component: frame packages and the frame history\<close>

text \<open>
  Times and coordinates are \<open>double\<close> in the source and are modelled as reals;
  arithmetic on \<open>double\<close> is taken as exact. Where the source stores a value in
  a \<open>float\<close>, the value is rounded to single precision by \<open>ToFloat\<close>.
\<close>

subsection \<open>Single precision\<close>

text \<open>
  Rounding of a real to the nearest integer, ties to the even one.
\<close>

definition RoundHalfEven :: "real \<Rightarrow> int" where
  "RoundHalfEven x =
     (let f = \<lfloor>x\<rfloor>; d = x - of_int f
      in if d < 1 / 2 then f else if 1 / 2 < d then f + 1 else if even f then f else f + 1)"

text \<open>
  The binary exponent of a magnitude: the \<open>e\<close> with \<open>2^e \<le> x < 2^(e+1)\<close>,
  searched upwards from 0 for \<open>1 \<le> x\<close> and downwards for \<open>x < 1\<close>. The
  search stops at 127 and at -126, the largest and the smallest exponent of a
  normal \<open>float\<close>; below \<open>2^(-126)\<close> lie the subnormal numbers, which share
  the exponent -126.
\<close>

primrec ExponentUp :: "nat \<Rightarrow> real \<Rightarrow> int" where
  "ExponentUp 0 x = 0"
| "ExponentUp (Suc n) x = (if x < 2 then 0 else ExponentUp n (x / 2) + 1)"

primrec ExponentDown :: "nat \<Rightarrow> real \<Rightarrow> int" where
  "ExponentDown 0 x = 0"
| "ExponentDown (Suc n) x = (if 1 \<le> x then 0 else ExponentDown n (2 * x) - 1)"

definition FloatExponent :: "real \<Rightarrow> int" where
  "FloatExponent x = (if 1 \<le> \<bar>x\<bar> then ExponentUp 127 \<bar>x\<bar> else ExponentDown 126 \<bar>x\<bar>)"

text \<open>
  The conversion of a \<open>double\<close> to \<open>float\<close> (IEEE 754 binary32, round to
  nearest, ties to even): a \<open>float\<close> has 24 significant bits, so the value is
  rounded to a multiple of \<open>2^(e-23)\<close>. A magnitude of \<open>2^128\<close> or more, which
  the conversion takes to infinity, is beyond every time and distance of the
  program; it is rounded like the others here.
\<close>

definition ToFloat :: "real \<Rightarrow> real" where
  "ToFloat x =
     of_int (RoundHalfEven (x / 2 powi (FloatExponent x - 23))) * 2 powi (FloatExponent x - 23)"

subsection \<open>Frame packages\<close>

record FVector =
  vecX :: real
  vecY :: real
  vecZ :: real

record FBox =
  boxMin :: FVector
  boxMax :: FVector
  boxIsValid :: bool

record FFramePackage =
  HitBox :: FBox
  bTeleported :: bool
  Time :: real

definition ZeroVector :: FVector where
  "ZeroVector = \<lparr>vecX = 0, vecY = 0, vecZ = 0\<rparr>"

text \<open>\<open>FBox(ForceInit)\<close>: both corners zero, the box flagged invalid.\<close>

definition FBox_ForceInit :: FBox where
  "FBox_ForceInit = \<lparr>boxMin = ZeroVector, boxMax = ZeroVector, boxIsValid = False\<rparr>"

text \<open>The default constructor \<open>FFramePackage()\<close>.\<close>

definition FFramePackage_default :: FFramePackage where
  "FFramePackage_default = \<lparr>HitBox = FBox_ForceInit, bTeleported = False, Time = 0\<rparr>"

definition IsValid :: "FFramePackage \<Rightarrow> bool" where
  "IsValid p \<longleftrightarrow> Time p > 0"

text \<open>
  The owning actor as far as the component reads it: its authority flag and
  the bounding box of its components.
\<close>

record OwnerActor =
  HasAuthority :: bool
  ComponentsBoundingBox :: FBox

text \<open>
  The component. \<open>FrameHistory\<close> is the doubly linked list, written head first:
  \<open>GetHead()\<close> is the first element, \<open>GetTail()\<close> the last, \<open>GetNextNode()\<close>
  moves towards the tail. \<open>GetOwner()\<close> may be null. \<open>MaxRecordTime\<close> is a
  \<open>float\<close>, \<open>0.8f\<close> unless configured otherwise.
\<close>

record URewindableComponent =
  GetOwner :: "OwnerActor option"
  bJustTeleported :: bool
  FrameHistory :: "FFramePackage list"
  MaxRecordTime :: real

datatype error = NullDereference | CheckFailed | DivisionByZero

subsection \<open>Recording\<close>








text \<open>A freshly constructed component on an authoritative owner, and a box placed at \<open>x\<close>.\<close>

definition NewComponent :: "real \<Rightarrow> URewindableComponent" where
  "NewComponent maxT =
     \<lparr>GetOwner = Some \<lparr>HasAuthority = True, ComponentsBoundingBox = FBox_ForceInit\<rparr>,
      bJustTeleported = False, FrameHistory = [], MaxRecordTime = maxT\<rparr>"

definition BoxAt :: "real \<Rightarrow> FBox" where
  "BoxAt x = \<lparr>boxMin = \<lparr>vecX = x, vecY = 0, vecZ = 0\<rparr>,
              boxMax = \<lparr>vecX = x + 1, vecY = 1, vecZ = 1\<rparr>, boxIsValid = True\<rparr>"

subsection \<open>Querying\<close>

definition Clamp :: "real \<Rightarrow> real \<Rightarrow> real \<Rightarrow> real" where
  "Clamp x lo hi = (if x < lo then lo else if x < hi then x else hi)"

definition vec_sub :: "FVector \<Rightarrow> FVector \<Rightarrow> FVector" where
  "vec_sub a b = \<lparr>vecX = vecX a - vecX b, vecY = vecY a - vecY b, vecZ = vecZ a - vecZ b\<rparr>"

definition vec_add :: "FVector \<Rightarrow> FVector \<Rightarrow> FVector" where
  "vec_add a b = \<lparr>vecX = vecX a + vecX b, vecY = vecY a + vecY b, vecZ = vecZ a + vecZ b\<rparr>"

definition vec_scale :: "FVector \<Rightarrow> real \<Rightarrow> FVector" where
  "vec_scale a k = \<lparr>vecX = vecX a * k, vecY = vecY a * k, vecZ = vecZ a * k\<rparr>"

definition SizeSquared :: "FVector \<Rightarrow> real" where
  "SizeSquared a = vecX a * vecX a + vecY a * vecY a + vecZ a * vecZ a"

text \<open>The engine's \<open>UE_KINDA_SMALL_NUMBER\<close>, the \<open>float\<close> literal \<open>1.e-4f\<close>.\<close>

definition KINDA_SMALL_NUMBER :: real where
  "KINDA_SMALL_NUMBER = ToFloat (1 / 10000)"

text \<open>
  The engine's \<open>FMath::VInterpTo(Current, Target, DeltaTime, InterpSpeed)\<close>, which
  \<open>InterpBetweenFrames\<close> calls with \<open>DeltaTime = 1\<close> and the interpolation
  fraction as speed. It is a function of the engine's math library, not of this
  repository: a speed that is not positive, or a target closer than
  \<open>KINDA_SMALL_NUMBER\<close> (squared distance), gives the target itself; otherwise
  the current point moves towards the target by the clamped factor. The factor
  is the product of two \<open>float\<close>s; with \<open>DeltaTime = 1\<close> the product is the
  speed itself, so no rounding occurs in it.
\<close>

definition VInterpTo :: "FVector \<Rightarrow> FVector \<Rightarrow> real \<Rightarrow> real \<Rightarrow> FVector" where
  "VInterpTo Current Target DeltaTime InterpSpeed =
     (if InterpSpeed \<le> 0 then Target
      else let Dist = vec_sub Target Current in
        if SizeSquared Dist < KINDA_SMALL_NUMBER then Target
        else vec_add Current (vec_scale Dist (Clamp (DeltaTime * InterpSpeed) 0 1)))"

text \<open>
  The two \<open>float\<close> locals of \<open>InterpBetweenFrames\<close>. \<open>Distance\<close> is the
  rounded difference of the two times. \<open>InterpFraction\<close> is the rounded clamp
  of the quotient; the quotient and its clamp are computed in \<open>double\<close>. A
  \<open>Distance\<close> of zero makes the quotient infinite, with the sign of the
  numerator and of the zero (a negative difference rounds to the negative zero),
  or not a number when the numerator is zero too: the clamp takes \<open>-\<infinity>\<close> to 0,
  and \<open>+\<infinity>\<close> and not-a-number to 1.
\<close>

definition Distance :: "FFramePackage \<Rightarrow> FFramePackage \<Rightarrow> real" where
  "Distance A B = ToFloat (Time B - Time A)"

definition InterpFraction :: "FFramePackage \<Rightarrow> FFramePackage \<Rightarrow> real \<Rightarrow> real" where
  "InterpFraction A B t =
     ToFloat
       (if Distance A B = 0
        then (if (if Time B - Time A < 0 then Time A - t else t - Time A) < 0 then 0 else 1)
        else Clamp ((t - Time A) / Distance A B) 0 1)"

text \<open>
  \<open>InterpBetweenFrames\<close>: the result package starts from the default package, so
  its box keeps the invalid flag; only time, teleport flag and the two corners
  are written.
\<close>

definition InterpBetweenFrames :: "FFramePackage \<Rightarrow> FFramePackage \<Rightarrow> real \<Rightarrow> FFramePackage" where
  "InterpBetweenFrames A B t =
     \<lparr>HitBox = \<lparr>boxMin = VInterpTo (boxMin (HitBox A)) (boxMin (HitBox B)) 1 (InterpFraction A B t),
                boxMax = VInterpTo (boxMax (HitBox A)) (boxMax (HitBox B)) 1 (InterpFraction A B t),
                boxIsValid = False\<rparr>,
      bTeleported = (bTeleported A \<or> bTeleported B),
      Time = t\<rparr>"

text \<open>
  The search loop of \<open>GetFramePackage\<close>: \<open>Older\<close> marches from the head towards
  the tail while its time is after the query time and a next node exists;
  \<open>Younger\<close> follows whenever the new node is still after the query time.
  The result is the pair \<open>(Older, Younger)\<close>; \<open>rest\<close> are the nodes after
  \<open>Older\<close>. The loop reads the \<open>double\<close> times of the nodes.
\<close>

primrec MarchBack ::
  "real \<Rightarrow> FFramePackage \<Rightarrow> FFramePackage \<Rightarrow> FFramePackage list \<Rightarrow> FFramePackage \<times> FFramePackage" where
  "MarchBack t Younger Older [] = (Older, Younger)"
| "MarchBack t Younger Older (n # rest) =
     (if Time Older > t
      then MarchBack t (if Time n > t then n else Younger) n rest
      else (Older, Younger))"

text \<open>
  \<open>GetFramePackage\<close>. The times of the tail and of the head are stored in the
  \<open>float\<close> locals \<open>OldestHistoryTime\<close> and \<open>NewestHistoryTime\<close>, and these
  are compared with the \<open>double\<close> query time; the exact-hit test after the
  loop reads the \<open>double\<close> time of the node.
\<close>

definition GetFramePackage :: "URewindableComponent \<Rightarrow> real \<Rightarrow> FFramePackage" where
  "GetFramePackage c InTime =
     (if GetOwner c = None \<or> FrameHistory c = [] then FFramePackage_default
      else
        let h = FrameHistory c;
            OldestHistoryTime = ToFloat (Time (last h));
            NewestHistoryTime = ToFloat (Time (hd h))
        in
          if OldestHistoryTime > InTime then FFramePackage_default
          else
            let (FrameToCheck1, bShouldInterpolate1) =
                  (if OldestHistoryTime = InTime then (last h, False)
                   else (FFramePackage_default, True));
                (FrameToCheck2, bShouldInterpolate2) =
                  (if NewestHistoryTime \<le> InTime then (hd h, False)
                   else (FrameToCheck1, bShouldInterpolate1));
                (Older, Younger) = MarchBack InTime (hd h) (hd h) (tl h);
                (FrameToCheck3, bShouldInterpolate3) =
                  (if Time Older = InTime then (Older, False)
                   else (FrameToCheck2, bShouldInterpolate2))
            in
              if bShouldInterpolate3 then InterpBetweenFrames Older Younger InTime
              else FrameToCheck3)"

subsection \<open>Reference notions for the rewind history\<close>

text \<open>Linear interpolation of a point by a fraction, as the specification words it.\<close>

definition Lerp :: "FVector \<Rightarrow> FVector \<Rightarrow> real \<Rightarrow> FVector" where
  "Lerp a b f = vec_add a (vec_scale (vec_sub b a) f)"




text \<open>Concrete histories used as test inputs.\<close>

definition FrameAt :: "real \<Rightarrow> real \<Rightarrow> FFramePackage" where
  "FrameAt t x = \<lparr>HitBox = BoxAt x, bTeleported = False, Time = t\<rparr>"






definition SingleHistory :: URewindableComponent where
  "SingleHistory = (NewComponent (ToFloat (8/10)))\<lparr>FrameHistory := [FrameAt (1/10) 0]\<rparr>"

definition TwoFrameHistory :: URewindableComponent where
  "TwoFrameHistory =
     (NewComponent (ToFloat (8/10)))\<lparr>FrameHistory := [FrameAt 1 10, FrameAt (7/10) 0]\<rparr>"


section \<open>Replication graph: class policies and routing\<close>

subsection \<open>Class policy resolver\<close>

text \<open>
The routing categories, in the order of the enumeration.
\<close>

datatype EClassRepNodeMapping =
  NotRouted | RelevantAllConnections | Spatialize_Static | Spatialize_Dynamic | Spatialize_Dormancy

text \<open>
The class default object of an actor class, as far as the resolver reads it:
\<open>GetIsReplicated()\<close> and the three relevancy flags.
\<close>

record AActor =
  bReplicates :: bool
  bAlwaysRelevant :: bool
  bOnlyRelevantToOwner :: bool
  bNetUseOwnerRelevancy :: bool

text \<open>
A class object. Every class but \<open>UObject\<close> has a super class, so the class
hierarchy is a finite chain ending in \<open>UObject\<close>; \<open>CDO_AsActor\<close> is
\<open>Cast<AActor>(Class->GetDefaultObject())\<close>, \<open>None\<close> when the default
object is not an actor.
\<close>

datatype UClass =
  UObject_StaticClass
  | SubClass (GetName: string) (CDO_AsActor: "AActor option") (GetSuperClass: UClass)

fun DefaultActor :: "UClass \<Rightarrow> AActor option" where
  "DefaultActor UObject_StaticClass = None"
| "DefaultActor (SubClass name cdo super) = cdo"

definition ShouldSpatialize :: "AActor \<Rightarrow> bool" where
  "ShouldSpatialize CDO \<longleftrightarrow>
     bReplicates CDO \<and> \<not> (bAlwaysRelevant CDO \<or> bOnlyRelevantToOwner CDO \<or> bNetUseOwnerRelevancy CDO)"

definition SameRelevancy :: "AActor \<Rightarrow> AActor \<Rightarrow> bool" where
  "SameRelevancy SuperCDO ActorCDO \<longleftrightarrow>
     bReplicates SuperCDO = bReplicates ActorCDO
     \<and> bAlwaysRelevant SuperCDO = bAlwaysRelevant ActorCDO
     \<and> bOnlyRelevantToOwner SuperCDO = bOnlyRelevantToOwner ActorCDO
     \<and> bNetUseOwnerRelevancy SuperCDO = bNetUseOwnerRelevancy ActorCDO"

text \<open>
\<open>ClassRepNodePolicies\<close>: the map from class pointers (a null pointer is
\<open>None\<close>) to categories; \<open>FindWithoutClassRecursion\<close> is the plain lookup.
\<close>

type_synonym ClassMap = "UClass option \<Rightarrow> EClassRepNodeMapping option"

text \<open>
\<open>UGameplayReplicationGraph::GetClassNodeMapping\<close>.
\<close>

fun GetClassNodeMapping :: "ClassMap \<Rightarrow> UClass option \<Rightarrow> EClassRepNodeMapping" where
  "GetClassNodeMapping P None = NotRouted"
| "GetClassNodeMapping P (Some UObject_StaticClass) =
     (case P (Some UObject_StaticClass) of Some m \<Rightarrow> m | None \<Rightarrow> NotRouted)"
| "GetClassNodeMapping P (Some (SubClass name cdo SuperClass)) =
     (case P (Some (SubClass name cdo SuperClass)) of
        Some m \<Rightarrow> m
      | None \<Rightarrow>
          (case cdo of
             None \<Rightarrow> NotRouted
           | Some ActorCDO \<Rightarrow>
               if \<not> bReplicates ActorCDO then NotRouted
               else if (case DefaultActor SuperClass of
                          Some SuperCDO \<Rightarrow> SameRelevancy SuperCDO ActorCDO
                        | None \<Rightarrow> False)
                 then GetClassNodeMapping P (Some SuperClass)
               else if ShouldSpatialize ActorCDO then Spatialize_Dynamic
               else if bAlwaysRelevant ActorCDO \<and> \<not> bOnlyRelevantToOwner ActorCDO
                 then RelevantAllConnections
               else NotRouted))"

text \<open>
\<open>RegisterClassRepNodeMapping\<close> stores the resolved category for the class.
\<close>

definition RegisterClassRepNodeMapping :: "ClassMap \<Rightarrow> UClass option \<Rightarrow> ClassMap" where
  "RegisterClassRepNodeMapping P InClass = P(InClass \<mapsto> GetClassNodeMapping P InClass)"

text \<open>
The resolver as the specification words it: the comparison with the nearest
ancestor comes before the test for a class that is not replicated.
\<close>

fun resolve_spec :: "ClassMap \<Rightarrow> UClass option \<Rightarrow> EClassRepNodeMapping" where
  "resolve_spec P None = NotRouted"
| "resolve_spec P (Some UObject_StaticClass) =
     (case P (Some UObject_StaticClass) of Some m \<Rightarrow> m | None \<Rightarrow> NotRouted)"
| "resolve_spec P (Some (SubClass name cdo SuperClass)) =
     (case P (Some (SubClass name cdo SuperClass)) of
        Some m \<Rightarrow> m
      | None \<Rightarrow>
          (case cdo of
             None \<Rightarrow> NotRouted
           | Some ActorCDO \<Rightarrow>
               if (case DefaultActor SuperClass of
                     Some SuperCDO \<Rightarrow> SameRelevancy SuperCDO ActorCDO
                   | None \<Rightarrow> False)
                 then resolve_spec P (Some SuperClass)
               else if \<not> bReplicates ActorCDO then NotRouted
               else if \<not> (bAlwaysRelevant ActorCDO \<or> bOnlyRelevantToOwner ActorCDO
                           \<or> bNetUseOwnerRelevancy ActorCDO) then Spatialize_Dynamic
               else if bAlwaysRelevant ActorCDO \<and> \<not> bOnlyRelevantToOwner ActorCDO
                 then RelevantAllConnections
               else NotRouted))"

declare GetClassNodeMapping.simps [simp del]

declare resolve_spec.simps [simp del]

subsection \<open>Routing of actors to nodes\<close>

text \<open>
Actors are pointers; an actor list (\<open>FActorRepListRefView\<close>) is a list of them.
\<open>ConditionalAdd\<close> adds an actor the list does not hold, \<open>RemoveFast\<close>
removes the first occurrence by swapping the last element into its place and
tells whether it found one.
\<close>

type_synonym FActorRepListType = nat

type_synonym FName = string

definition NAME_None :: FName where
  "NAME_None = ''None''"

definition Contains :: "FActorRepListType list \<Rightarrow> FActorRepListType \<Rightarrow> bool" where
  "Contains l a \<longleftrightarrow> a \<in> set l"

definition ConditionalAdd :: "FActorRepListType list \<Rightarrow> FActorRepListType \<Rightarrow> FActorRepListType list" where
  "ConditionalAdd l a = (if Contains l a then l else l @ [a])"

definition RemoveAtSwap :: "'a list \<Rightarrow> nat \<Rightarrow> 'a list" where
  "RemoveAtSwap xs i = (if Suc i = length xs then butlast xs else butlast (xs[i := last xs]))"

fun IndexOf :: "FActorRepListType list \<Rightarrow> FActorRepListType \<Rightarrow> nat option" where
  "IndexOf [] a = None"
| "IndexOf (x # xs) a = (if x = a then Some 0 else map_option Suc (IndexOf xs a))"

definition RemoveFast :: "FActorRepListType list \<Rightarrow> FActorRepListType \<Rightarrow> bool \<times> FActorRepListType list" where
  "RemoveFast l a = (case IndexOf l a of None \<Rightarrow> (False, l) | Some i \<Rightarrow> (True, RemoveAtSwap l i))"

text \<open>
\<open>AddReplicationActorList\<close> of the gathered lists appends the list. Whether the
engine drops an empty list is of no consequence for what is proved below,
which is about the actors the gathered lists hold.
\<close>

definition AddReplicationActorList ::
  "FActorRepListType list list \<Rightarrow> FActorRepListType list \<Rightarrow> FActorRepListType list list" where
  "AddReplicationActorList Out l = Out @ [l]"

declare AddReplicationActorList_def [simp]

text \<open>
What the graph is told about an actor that is added or removed.
\<close>

record FNewReplicatedActorInfo =
  Actor :: FActorRepListType
  Class :: "UClass option"
  StreamingLevelName :: FName

text \<open>
The graph's routing state. The engine's nodes are kept as the lists of actors
they hold: the always relevant node and the actors added to the
spatialization grid as static, as dynamic and as dormancy driven ones.
\<open>DestructionInfosIgnoringCulling\<close> collects the actors handed to
\<open>SetActorDestructionInfoToIgnoreDistanceCulling\<close>, \<open>LogWarnings\<close> the
warnings written to the log.
\<close>

record UGameplayReplicationGraph =
  ClassRepNodePolicies :: ClassMap
  AlwaysRelevantNode :: "FActorRepListType list"
  AlwaysRelevantStreamingLevelActors :: "FName \<rightharpoonup> FActorRepListType list"
  GridNode_Static :: "FActorRepListType list"
  GridNode_Dynamic :: "FActorRepListType list"
  GridNode_Dormancy :: "FActorRepListType list"
  DestructionInfosIgnoringCulling :: "FActorRepListType list"
  LogWarnings :: "string list"

text \<open>
\<open>TClassMap::Get\<close> of the engine, with the \<open>InitNewElement\<close> callback that
\<open>InitGlobalActorClassSettings\<close> installs: a class that is not in the map is
resolved by \<open>GetClassNodeMapping\<close> and stored.
\<close>

definition ClassMap_Get :: "ClassMap \<Rightarrow> UClass option \<Rightarrow> EClassRepNodeMapping option \<times> ClassMap" where
  "ClassMap_Get P InClass =
     (case P InClass of
        Some m \<Rightarrow> (Some m, P)
      | None \<Rightarrow> (Some (GetClassNodeMapping P InClass), P(InClass \<mapsto> GetClassNodeMapping P InClass)))"

definition GetMappingPolicy ::
  "UGameplayReplicationGraph \<Rightarrow> UClass option \<Rightarrow> EClassRepNodeMapping \<times> UGameplayReplicationGraph" where
  "GetMappingPolicy g InClass =
     (let (PolicyPtr, P') = ClassMap_Get (ClassRepNodePolicies g) InClass
      in (case PolicyPtr of Some Policy \<Rightarrow> Policy | None \<Rightarrow> NotRouted,
          g\<lparr>ClassRepNodePolicies := P'\<rparr>))"

definition RouteAddNetworkActorToNodes ::
  "UGameplayReplicationGraph \<Rightarrow> FNewReplicatedActorInfo \<Rightarrow> UGameplayReplicationGraph" where
  "RouteAddNetworkActorToNodes g0 ActorInfo =
     (let (Policy, g) = GetMappingPolicy g0 (Class ActorInfo) in
      case Policy of
        NotRouted \<Rightarrow> g
      | RelevantAllConnections \<Rightarrow>
          if StreamingLevelName ActorInfo = NAME_None
          then g\<lparr>AlwaysRelevantNode := AlwaysRelevantNode g @ [Actor ActorInfo]\<rparr>
          else
            let RepList = (case AlwaysRelevantStreamingLevelActors g (StreamingLevelName ActorInfo) of
                             None \<Rightarrow> [] | Some l \<Rightarrow> l)
            in g\<lparr>AlwaysRelevantStreamingLevelActors :=
                    (AlwaysRelevantStreamingLevelActors g)
                      (StreamingLevelName ActorInfo \<mapsto> ConditionalAdd RepList (Actor ActorInfo))\<rparr>
      | Spatialize_Static \<Rightarrow> g\<lparr>GridNode_Static := GridNode_Static g @ [Actor ActorInfo]\<rparr>
      | Spatialize_Dynamic \<Rightarrow> g\<lparr>GridNode_Dynamic := GridNode_Dynamic g @ [Actor ActorInfo]\<rparr>
      | Spatialize_Dormancy \<Rightarrow> g\<lparr>GridNode_Dormancy := GridNode_Dormancy g @ [Actor ActorInfo]\<rparr>)"

definition NotFoundInLevelList :: string where
  "NotFoundInLevelList = ''Actor was not found in AlwaysRelevantStreamingLevelActors list.''"

definition NotFoundInActorList :: string where
  "NotFoundInActorList = ''Attempted to remove actor from list but it was not found.''"

definition NotFoundInStaticList :: string where
  "NotFoundInStaticList = ''RemoveActor_Static attempted remove actor from static list but it was not there.''"

definition NotFoundInDynamicList :: string where
  "NotFoundInDynamicList = ''RemoveActorInternal_Dynamic attempted remove actor but it was not found.''"

definition NotFoundInDormancyList :: string where
  "NotFoundInDormancyList = ''RemoveActor_Dormancy attempted remove actor but it was not found.''"

text \<open>
\<open>RouteRemoveNetworkActorToNodes\<close>. \<open>FindChecked\<close> on a level without a list
fails its check, which is fatal. The calls into the engine's nodes
(\<open>NotifyRemoveNetworkActor\<close> of the always relevant node, \<open>RemoveActor_Static\<close>,
\<open>RemoveActor_Dynamic\<close> and \<open>RemoveActor_Dormancy\<close> of the grid) remove the
actor from the node; a node that does not hold the actor logs a warning and
stays as it is.
\<close>

definition RouteRemoveNetworkActorToNodes ::
  "UGameplayReplicationGraph \<Rightarrow> FNewReplicatedActorInfo \<Rightarrow> error + UGameplayReplicationGraph" where
  "RouteRemoveNetworkActorToNodes g0 ActorInfo =
     (let (Policy, g) = GetMappingPolicy g0 (Class ActorInfo) in
      case Policy of
        NotRouted \<Rightarrow> Inr g
      | RelevantAllConnections \<Rightarrow>
          (case
             (if StreamingLevelName ActorInfo = NAME_None
              then
                Inr (if Contains (AlwaysRelevantNode g) (Actor ActorInfo)
                     then g\<lparr>AlwaysRelevantNode := remove1 (Actor ActorInfo) (AlwaysRelevantNode g)\<rparr>
                     else g\<lparr>LogWarnings := LogWarnings g @ [NotFoundInActorList]\<rparr>)
              else
                (case AlwaysRelevantStreamingLevelActors g (StreamingLevelName ActorInfo) of
                   None \<Rightarrow> Inl CheckFailed
                 | Some RepList \<Rightarrow>
                     (case RemoveFast RepList (Actor ActorInfo) of
                        (False, l) \<Rightarrow> Inr (g\<lparr>LogWarnings := LogWarnings g @ [NotFoundInLevelList]\<rparr>)
                      | (True, l) \<Rightarrow>
                          Inr (g\<lparr>AlwaysRelevantStreamingLevelActors :=
                                    (AlwaysRelevantStreamingLevelActors g)
                                      (StreamingLevelName ActorInfo \<mapsto> l)\<rparr>))))
           of
             Inl e \<Rightarrow> Inl e
           | Inr g' \<Rightarrow>
               Inr (g'\<lparr>DestructionInfosIgnoringCulling :=
                         DestructionInfosIgnoringCulling g' @ [Actor ActorInfo]\<rparr>))
      | Spatialize_Static \<Rightarrow>
          Inr (if Contains (GridNode_Static g) (Actor ActorInfo)
               then g\<lparr>GridNode_Static := remove1 (Actor ActorInfo) (GridNode_Static g)\<rparr>
               else g\<lparr>LogWarnings := LogWarnings g @ [NotFoundInStaticList]\<rparr>)
      | Spatialize_Dynamic \<Rightarrow>
          Inr (if Contains (GridNode_Dynamic g) (Actor ActorInfo)
               then g\<lparr>GridNode_Dynamic := remove1 (Actor ActorInfo) (GridNode_Dynamic g)\<rparr>
               else g\<lparr>LogWarnings := LogWarnings g @ [NotFoundInDynamicList]\<rparr>)
      | Spatialize_Dormancy \<Rightarrow>
          Inr (if Contains (GridNode_Dormancy g) (Actor ActorInfo)
               then g\<lparr>GridNode_Dormancy := remove1 (Actor ActorInfo) (GridNode_Dormancy g)\<rparr>
               else g\<lparr>LogWarnings := LogWarnings g @ [NotFoundInDormancyList]\<rparr>))"

subsection \<open>Reference notions for routing\<close>





text \<open>
Concrete classes and graphs used as test inputs. \<open>InitialGraph\<close> is the
graph after its class settings were initialised with the class \<open>GameState\<close>
registered and before any actor was added.
\<close>

definition PlainActor :: AActor where
  "PlainActor = \<lparr>bReplicates = False, bAlwaysRelevant = False, bOnlyRelevantToOwner = False,
                  bNetUseOwnerRelevancy = False\<rparr>"

definition AActor_StaticClass :: UClass where
  "AActor_StaticClass = SubClass ''Actor'' (Some PlainActor) UObject_StaticClass"

definition Marker_Class :: UClass where
  "Marker_Class = SubClass ''Marker'' (Some PlainActor) AActor_StaticClass"

definition MarkerChild_Class :: UClass where
  "MarkerChild_Class = SubClass ''MarkerChild'' (Some PlainActor) Marker_Class"

definition GameState_Class :: UClass where
  "GameState_Class =
     SubClass ''GameState''
       (Some \<lparr>bReplicates = True, bAlwaysRelevant = True, bOnlyRelevantToOwner = False,
              bNetUseOwnerRelevancy = False\<rparr>)
       AActor_StaticClass"

definition InitialGraph :: UGameplayReplicationGraph where
  "InitialGraph =
     \<lparr>ClassRepNodePolicies = [Some GameState_Class \<mapsto> RelevantAllConnections],
      AlwaysRelevantNode = [],
      AlwaysRelevantStreamingLevelActors = Map.empty,
      GridNode_Static = [], GridNode_Dynamic = [], GridNode_Dormancy = [],
      DestructionInfosIgnoringCulling = [], LogWarnings = []\<rparr>"


definition ReplicatedActor :: AActor where
  "ReplicatedActor = \<lparr>bReplicates = True, bAlwaysRelevant = False, bOnlyRelevantToOwner = False,
                       bNetUseOwnerRelevancy = False\<rparr>"

definition Pawn_Class :: UClass where
  "Pawn_Class = SubClass ''Pawn'' (Some ReplicatedActor) AActor_StaticClass"

definition Character_Class :: UClass where
  "Character_Class = SubClass ''Character'' (Some ReplicatedActor) Pawn_Class"

section \<open>Player state frequency limiter\<close>

text \<open>
A player state of the world as the node meets it: the actor, whether
\<open>IsActorValidForReplicationGather\<close> accepts it, and whether a forced net
update is pending for it.
\<close>

record APlayerState =
  PlayerStateActor :: FActorRepListType
  bValidForReplicationGather :: bool
  bPendingForceNetUpdate :: bool

text \<open>
The node: the target number of actors per frame, the rotating lists and the
list for forced updates.
\<close>

record UGameRepGraphNode_PlayerStateFrequencyLimiter =
  TargetActorsPerFrame :: int
  ReplicationActorLists :: "FActorRepListType list list"
  ForceNetUpdateReplicationActorList :: "FActorRepListType list"

text \<open>
The body of the loop of \<open>PrepareForReplication\<close> for a valid player state:
\<open>CurrentList\<close> is the last list; when it holds the target number of actors
or more, a new list is added and becomes current.
\<close>

definition AddToCurrentList ::
  "int \<Rightarrow> FActorRepListType list list \<Rightarrow> FActorRepListType \<Rightarrow> FActorRepListType list list" where
  "AddToCurrentList Target Lists PS =
     (let Lists1 = (if int (length (last Lists)) \<ge> Target then Lists @ [[]] else Lists)
      in butlast Lists1 @ [last Lists1 @ [PS]])"

text \<open>
The loop over the player states of the world; an invalid one is skipped.
\<close>

fun PrepareLoop ::
  "int \<Rightarrow> APlayerState list \<Rightarrow> FActorRepListType list list \<Rightarrow> FActorRepListType list list" where
  "PrepareLoop Target [] Lists = Lists"
| "PrepareLoop Target (PS # rest) Lists =
     (if \<not> bValidForReplicationGather PS then PrepareLoop Target rest Lists
      else PrepareLoop Target rest (AddToCurrentList Target Lists (PlayerStateActor PS)))"

text \<open>
\<open>PrepareForReplication\<close> resets both members, adds the first list and runs
the loop. Nothing writes to the list for forced updates.
\<close>

definition PrepareForReplication ::
  "UGameRepGraphNode_PlayerStateFrequencyLimiter \<Rightarrow> APlayerState list
     \<Rightarrow> UGameRepGraphNode_PlayerStateFrequencyLimiter" where
  "PrepareForReplication node world =
     node\<lparr>ReplicationActorLists := PrepareLoop (TargetActorsPerFrame node) world [[]],
          ForceNetUpdateReplicationActorList := []\<rparr>"

text \<open>
\<open>GatherActorListsForConnection\<close> of the limiter: the list at index
\<open>ReplicationFrameNum % Num()\<close>, then the list for forced updates when it is
not empty. With no list at all the remainder divides by zero.
\<close>

definition FrequencyLimiter_GatherActorListsForConnection ::
  "UGameRepGraphNode_PlayerStateFrequencyLimiter \<Rightarrow> 32 word \<Rightarrow> FActorRepListType list list
     \<Rightarrow> error + FActorRepListType list list" where
  "FrequencyLimiter_GatherActorListsForConnection node ReplicationFrameNum OutGatheredReplicationLists =
     (if ReplicationActorLists node = [] then Inl DivisionByZero
      else
        let ListIdx = unat ReplicationFrameNum mod length (ReplicationActorLists node);
            out1 = AddReplicationActorList OutGatheredReplicationLists
                     (ReplicationActorLists node ! ListIdx)
        in Inr (if length (ForceNetUpdateReplicationActorList node) > 0
                then AddReplicationActorList out1 (ForceNetUpdateReplicationActorList node)
                else out1))"

text \<open>
Concrete worlds used as test inputs.
\<close>

definition ThreePlayers :: "APlayerState list" where
  "ThreePlayers =
     [\<lparr>PlayerStateActor = 0, bValidForReplicationGather = True, bPendingForceNetUpdate = False\<rparr>,
      \<lparr>PlayerStateActor = 1, bValidForReplicationGather = True, bPendingForceNetUpdate = False\<rparr>,
      \<lparr>PlayerStateActor = 2, bValidForReplicationGather = True, bPendingForceNetUpdate = True\<rparr>]"

definition NewLimiter :: "int \<Rightarrow> UGameRepGraphNode_PlayerStateFrequencyLimiter" where
  "NewLimiter Target =
     \<lparr>TargetActorsPerFrame = Target, ReplicationActorLists = [],
      ForceNetUpdateReplicationActorList = []\<rparr>"

definition TenPlayers :: "APlayerState list" where
  "TenPlayers =
     map (\<lambda>i. \<lparr>PlayerStateActor = i, bValidForReplicationGather = True,
                bPendingForceNetUpdate = False\<rparr>) [0, 1, 2, 3, 4, 5, 6, 7, 8, 9]"

section \<open>Always relevant node of a connection\<close>

text \<open>
What a connection records about an actor, as far as this node reads or writes
it; \<open>FindOrAdd\<close> on the connection's map adds a default entry, which is not
dormant.
\<close>

record FConnectionReplicationActorInfo =
  bDormantOnConnection :: bool
  ReplicationPeriodFrame :: nat

definition FConnectionReplicationActorInfo_default :: FConnectionReplicationActorInfo where
  "FConnectionReplicationActorInfo_default = \<lparr>bDormantOnConnection = False, ReplicationPeriodFrame = 1\<rparr>"

type_synonym FPerConnectionActorInfoMap = "FActorRepListType \<rightharpoonup> FConnectionReplicationActorInfo"

definition FindOrAdd ::
  "FPerConnectionActorInfoMap \<Rightarrow> FActorRepListType
     \<Rightarrow> FConnectionReplicationActorInfo \<times> FPerConnectionActorInfoMap" where
  "FindOrAdd m a =
     (case m a of
        None \<Rightarrow> (FConnectionReplicationActorInfo_default, m(a \<mapsto> FConnectionReplicationActorInfo_default))
      | Some i \<Rightarrow> (i, m))"

text \<open>
The connection manager: its order number (an \<open>int32\<close>) and its actor map.
\<close>

record UNetReplicationGraphConnection =
  ConnectionOrderNum :: int
  ActorInfoMap :: FPerConnectionActorInfoMap

text \<open>
A viewer. \<open>InViewer_AsPlayerController\<close> is
\<open>Cast<APlayerController>(InViewer)\<close>; of a player controller the node reads
the player state, which may be null, and \<open>Cast<ACharacter>(GetPawn())\<close>.
\<close>

record APlayerController =
  PlayerState :: "FActorRepListType option"
  Pawn_AsCharacter :: "FActorRepListType option"

record FNetViewer =
  InViewer :: FActorRepListType
  ViewTarget :: FActorRepListType
  InViewer_AsPlayerController :: "APlayerController option"

text \<open>
The node's own state and the parameters of a gather. The frame number is a
\<open>uint32\<close>.
\<close>

record UGameRepGraphNode_AlwaysRelevant_ForConnection =
  ReplicationActorList :: "FActorRepListType list"
  AlwaysRelevantStreamingLevelsNeedingReplication :: "FName list"
  bInitializedPlayerState :: bool

record FConnectionGatherActorListParameters =
  Viewers :: "FNetViewer list"
  ConnectionManager :: UNetReplicationGraphConnection
  ReplicationFrameNum :: "32 word"
  OutGatheredReplicationLists :: "FActorRepListType list list"

text \<open>
\<open>(ConnectionOrderNum % 2) == (ReplicationFrameNum % 2)\<close>: the remainder of
the \<open>int32\<close> truncates towards zero and is converted to \<open>uint32\<close> for the
comparison.
\<close>

definition bReplicatePS :: "int \<Rightarrow> 32 word \<Rightarrow> bool" where
  "bReplicatePS OrderNum FrameNum \<longleftrightarrow> (word_of_int (OrderNum smod 2) :: 32 word) = FrameNum mod 2"

text \<open>
The branch for a player state that is not null: the first time, the
connection's entry of the player state gets the replication period 1; then
the player state is added to the list.
\<close>

definition AddPlayerState ::
  "FActorRepListType
     \<Rightarrow> UGameRepGraphNode_AlwaysRelevant_ForConnection \<times> UNetReplicationGraphConnection
     \<Rightarrow> UGameRepGraphNode_AlwaysRelevant_ForConnection \<times> UNetReplicationGraphConnection" where
  "AddPlayerState PS = (\<lambda>(node, mgr).
     let (node1, mgr1) =
           (if \<not> bInitializedPlayerState node
            then (node\<lparr>bInitializedPlayerState := True\<rparr>,
                  mgr\<lparr>ActorInfoMap :=
                        (snd (FindOrAdd (ActorInfoMap mgr) PS))
                          (PS \<mapsto> (fst (FindOrAdd (ActorInfoMap mgr) PS))\<lparr>ReplicationPeriodFrame := 1\<rparr>)\<rparr>)
            else (node, mgr))
     in (node1\<lparr>ReplicationActorList := ConditionalAdd (ReplicationActorList node1) PS\<rparr>, mgr1))"

text \<open>
The body of the loop over the viewers. The engine's bookkeeping of the last
viewer and view target (\<open>UpdateCachedRelevantActor\<close>,
\<open>CleanupCachedRelevantActors\<close>) changes cull distances only and is left out;
the gameplay debugger is not compiled in.
\<close>

definition ViewerStep ::
  "32 word \<Rightarrow> FNetViewer
     \<Rightarrow> UGameRepGraphNode_AlwaysRelevant_ForConnection \<times> UNetReplicationGraphConnection
     \<Rightarrow> UGameRepGraphNode_AlwaysRelevant_ForConnection \<times> UNetReplicationGraphConnection" where
  "ViewerStep FrameNum CurViewer = (\<lambda>(node0, mgr0).
     let node1 = node0\<lparr>ReplicationActorList :=
                   ConditionalAdd (ConditionalAdd (ReplicationActorList node0) (InViewer CurViewer))
                     (ViewTarget CurViewer)\<rparr>
     in case InViewer_AsPlayerController CurViewer of
          None \<Rightarrow> (node1, mgr0)
        | Some PC \<Rightarrow>
            let (node2, mgr2) =
                  (if bReplicatePS (ConnectionOrderNum mgr0) FrameNum
                   then (case PlayerState PC of
                           None \<Rightarrow> (node1, mgr0)
                         | Some PS \<Rightarrow> AddPlayerState PS (node1, mgr0))
                   else (node1, mgr0))
            in case Pawn_AsCharacter PC of
                 None \<Rightarrow> (node2, mgr2)
               | Some Pawn \<Rightarrow>
                   if Pawn \<noteq> ViewTarget CurViewer
                   then (node2\<lparr>ReplicationActorList := ConditionalAdd (ReplicationActorList node2) Pawn\<rparr>,
                         mgr2)
                   else (node2, mgr2))"

fun ViewerLoop ::
  "32 word \<Rightarrow> FNetViewer list
     \<Rightarrow> UGameRepGraphNode_AlwaysRelevant_ForConnection \<times> UNetReplicationGraphConnection
     \<Rightarrow> UGameRepGraphNode_AlwaysRelevant_ForConnection \<times> UNetReplicationGraphConnection" where
  "ViewerLoop FrameNum [] s = s"
| "ViewerLoop FrameNum (CurViewer # rest) s = ViewerLoop FrameNum rest (ViewerStep FrameNum CurViewer s)"

text \<open>
The scan for an actor that is not dormant on the connection; it stops at the
first one.
\<close>

fun AllDormantScan ::
  "FActorRepListType list \<Rightarrow> FPerConnectionActorInfoMap \<Rightarrow> bool \<times> FPerConnectionActorInfoMap" where
  "AllDormantScan [] m = (True, m)"
| "AllDormantScan (a # rest) m =
     (let (ConnectionActorInfo, m') = FindOrAdd m a
      in if bDormantOnConnection ConnectionActorInfo = False then (False, m')
         else AllDormantScan rest m')"

text \<open>
The loop over the tracked streaming levels, from the last index down to 0.
\<open>Idx\<close> is always below the number of tracked levels, since a step removes
at most the entry at \<open>Idx\<close>.
\<close>

record StreamingLevelLoopState =
  LevelsNeedingReplication :: "FName list"
  LoopActorInfoMap :: FPerConnectionActorInfoMap
  LoopOutLists :: "FActorRepListType list list"
  LoopWarnings :: "string list"

definition EmptyRepListWarning :: string where
  "EmptyRepListWarning = ''GatherActorListsForConnection - empty RepList''"

definition StreamingLevelStep ::
  "(FName \<rightharpoonup> FActorRepListType list) \<Rightarrow> nat \<Rightarrow> StreamingLevelLoopState \<Rightarrow> StreamingLevelLoopState" where
  "StreamingLevelStep LevelActors Idx s =
     (let StreamingLevel = LevelsNeedingReplication s ! Idx in
      case LevelActors StreamingLevel of
        None \<Rightarrow> s\<lparr>LevelsNeedingReplication := RemoveAtSwap (LevelsNeedingReplication s) Idx\<rparr>
      | Some RepList \<Rightarrow>
          if length RepList > 0 then
            (let (bAllDormant, m') = AllDormantScan RepList (LoopActorInfoMap s) in
             if bAllDormant
             then s\<lparr>LevelsNeedingReplication := RemoveAtSwap (LevelsNeedingReplication s) Idx,
                    LoopActorInfoMap := m'\<rparr>
             else s\<lparr>LoopActorInfoMap := m',
                    LoopOutLists := AddReplicationActorList (LoopOutLists s) RepList\<rparr>)
          else s\<lparr>LoopWarnings := LoopWarnings s @ [EmptyRepListWarning]\<rparr>)"

primrec StreamingLevelLoop ::
  "(FName \<rightharpoonup> FActorRepListType list) \<Rightarrow> nat \<Rightarrow> StreamingLevelLoopState \<Rightarrow> StreamingLevelLoopState" where
  "StreamingLevelLoop LevelActors 0 s = s"
| "StreamingLevelLoop LevelActors (Suc Idx) s =
     StreamingLevelLoop LevelActors Idx (StreamingLevelStep LevelActors Idx s)"

text \<open>
\<open>UGameRepGraphNode_AlwaysRelevant_ForConnection::GatherActorListsForConnection\<close>:
the result is the graph (its log), the node and the parameters (the
connection manager and the gathered lists).
\<close>

definition AlwaysRelevant_GatherActorListsForConnection ::
  "UGameplayReplicationGraph \<Rightarrow> UGameRepGraphNode_AlwaysRelevant_ForConnection
     \<Rightarrow> FConnectionGatherActorListParameters
     \<Rightarrow> UGameplayReplicationGraph \<times> UGameRepGraphNode_AlwaysRelevant_ForConnection
         \<times> FConnectionGatherActorListParameters" where
  "AlwaysRelevant_GatherActorListsForConnection GameGraph node0 Params =
     (let (node1, mgr1) =
            ViewerLoop (ReplicationFrameNum Params) (Viewers Params)
              (node0\<lparr>ReplicationActorList := []\<rparr>, ConnectionManager Params);
          out1 = AddReplicationActorList (OutGatheredReplicationLists Params)
                   (ReplicationActorList node1);
          s = StreamingLevelLoop (AlwaysRelevantStreamingLevelActors GameGraph)
                (length (AlwaysRelevantStreamingLevelsNeedingReplication node1))
                \<lparr>LevelsNeedingReplication = AlwaysRelevantStreamingLevelsNeedingReplication node1,
                 LoopActorInfoMap = ActorInfoMap mgr1,
                 LoopOutLists = out1,
                 LoopWarnings = LogWarnings GameGraph\<rparr>
      in (GameGraph\<lparr>LogWarnings := LoopWarnings s\<rparr>,
          node1\<lparr>AlwaysRelevantStreamingLevelsNeedingReplication := LevelsNeedingReplication s\<rparr>,
          Params\<lparr>ConnectionManager := mgr1\<lparr>ActorInfoMap := LoopActorInfoMap s\<rparr>,
                 OutGatheredReplicationLists := LoopOutLists s\<rparr>))"

definition OnClientLevelVisibilityAdd ::
  "UGameRepGraphNode_AlwaysRelevant_ForConnection \<Rightarrow> FName \<Rightarrow> UGameRepGraphNode_AlwaysRelevant_ForConnection" where
  "OnClientLevelVisibilityAdd node LevelName =
     node\<lparr>AlwaysRelevantStreamingLevelsNeedingReplication :=
            AlwaysRelevantStreamingLevelsNeedingReplication node @ [LevelName]\<rparr>"

definition OnClientLevelVisibilityRemove ::
  "UGameRepGraphNode_AlwaysRelevant_ForConnection \<Rightarrow> FName \<Rightarrow> UGameRepGraphNode_AlwaysRelevant_ForConnection" where
  "OnClientLevelVisibilityRemove node LevelName =
     node\<lparr>AlwaysRelevantStreamingLevelsNeedingReplication :=
            removeAll LevelName (AlwaysRelevantStreamingLevelsNeedingReplication node)\<rparr>"

text \<open>
Readings of the state used to state the properties: whether an actor is
dormant on the connection, whether all actors of a list are, what a tracked
level contributes to a gather, whether it stays tracked, and the actors a
viewer brings into the list.
\<close>

definition IsDormantOnConnection :: "FPerConnectionActorInfoMap \<Rightarrow> FActorRepListType \<Rightarrow> bool" where
  "IsDormantOnConnection m a = (case m a of None \<Rightarrow> False | Some i \<Rightarrow> bDormantOnConnection i)"

definition AllDormantOnConnection :: "FPerConnectionActorInfoMap \<Rightarrow> FActorRepListType list \<Rightarrow> bool" where
  "AllDormantOnConnection m l \<longleftrightarrow> (\<forall>a\<in>set l. IsDormantOnConnection m a)"

definition LevelContribution ::
  "(FName \<rightharpoonup> FActorRepListType list) \<Rightarrow> FPerConnectionActorInfoMap \<Rightarrow> FName
     \<Rightarrow> FActorRepListType list list" where
  "LevelContribution LevelActors m R =
     (case LevelActors R of
        None \<Rightarrow> []
      | Some l \<Rightarrow> if l \<noteq> [] \<and> \<not> AllDormantOnConnection m l then [l] else [])"

definition LevelStaysTracked ::
  "(FName \<rightharpoonup> FActorRepListType list) \<Rightarrow> FPerConnectionActorInfoMap \<Rightarrow> FName \<Rightarrow> bool" where
  "LevelStaysTracked LevelActors m R =
     (case LevelActors R of
        None \<Rightarrow> False
      | Some l \<Rightarrow> l = [] \<or> \<not> AllDormantOnConnection m l)"

definition ViewerActors :: "bool \<Rightarrow> FNetViewer \<Rightarrow> FActorRepListType set" where
  "ViewerActors bWithPlayerState v =
     {InViewer v, ViewTarget v}
     \<union> (case InViewer_AsPlayerController v of
          None \<Rightarrow> {}
        | Some PC \<Rightarrow>
            set_option (Pawn_AsCharacter PC)
            \<union> (if bWithPlayerState then set_option (PlayerState PC) else {}))"

text \<open>
Concrete nodes, viewers and graphs used as test inputs.
\<close>

definition NewConnectionNode :: UGameRepGraphNode_AlwaysRelevant_ForConnection where
  "NewConnectionNode =
     \<lparr>ReplicationActorList = [], AlwaysRelevantStreamingLevelsNeedingReplication = [],
      bInitializedPlayerState = False\<rparr>"

definition PlayerViewer :: FNetViewer where
  "PlayerViewer =
     \<lparr>InViewer = 10, ViewTarget = 11,
      InViewer_AsPlayerController = Some \<lparr>PlayerState = Some 12, Pawn_AsCharacter = Some 11\<rparr>\<rparr>"

definition GatherParams ::
  "int \<Rightarrow> 32 word \<Rightarrow> FNetViewer list \<Rightarrow> FPerConnectionActorInfoMap
     \<Rightarrow> FConnectionGatherActorListParameters" where
  "GatherParams OrderNum FrameNum vs m =
     \<lparr>Viewers = vs, ConnectionManager = \<lparr>ConnectionOrderNum = OrderNum, ActorInfoMap = m\<rparr>,
      ReplicationFrameNum = FrameNum, OutGatheredReplicationLists = []\<rparr>"

definition RegionActor :: "FActorRepListType \<Rightarrow> FNewReplicatedActorInfo" where
  "RegionActor a = \<lparr>Actor = a, Class = Some GameState_Class, StreamingLevelName = ''R1''\<rparr>"

definition RegionGraph :: UGameplayReplicationGraph where
  "RegionGraph =
     RouteAddNetworkActorToNodes (RouteAddNetworkActorToNodes InitialGraph (RegionActor 1)) (RegionActor 2)"

definition VisibleNode :: UGameRepGraphNode_AlwaysRelevant_ForConnection where
  "VisibleNode = OnClientLevelVisibilityAdd NewConnectionNode ''R1''"

definition MarkDormant :: "FPerConnectionActorInfoMap \<Rightarrow> FActorRepListType \<Rightarrow> FPerConnectionActorInfoMap" where
  "MarkDormant m a = m(a \<mapsto> (fst (FindOrAdd m a))\<lparr>bDormantOnConnection := True\<rparr>)"

definition EmptiedGraph :: UGameplayReplicationGraph where
  "EmptiedGraph =
     \<lparr>ClassRepNodePolicies = [Some GameState_Class \<mapsto> RelevantAllConnections],
      AlwaysRelevantNode = [],
      AlwaysRelevantStreamingLevelActors = [''R1'' \<mapsto> []],
      GridNode_Static = [], GridNode_Dynamic = [], GridNode_Dormancy = [],
      DestructionInfosIgnoringCulling = [1], LogWarnings = []\<rparr>"

section \<open>Properties of the rewind history\<close>

subsection \<open>Single precision\<close>

lemma ToFloat_zero: "ToFloat 0 = 0"
proof -
  have e: "FloatExponent 0 = - 126"
    by (simp add: FloatExponent_def eval_nat_numeral)
  have r: "RoundHalfEven (0 / 2 powi (- 126 - 23)) = 0"
    by (simp add: RoundHalfEven_def Let_def)
  show ?thesis unfolding ToFloat_def e r by simp
qed

lemma ToFloat_one: "ToFloat 1 = 1"
proof -
  have e: "FloatExponent 1 = 0"
    by (simp add: FloatExponent_def eval_nat_numeral)
  have r: "RoundHalfEven (1 / 2 powi (0 - 23)) = 8388608"
    by (simp add: RoundHalfEven_def Let_def)
  show ?thesis unfolding ToFloat_def e r by simp
qed

lemma ToFloat_half: "ToFloat (1/2) = 1/2"
proof -
  have e: "FloatExponent (1/2) = - 1"
    by (simp add: FloatExponent_def eval_nat_numeral)
  have r: "RoundHalfEven ((1/2) / 2 powi (- 1 - 23)) = 8388608"
    by (simp add: RoundHalfEven_def Let_def)
  show ?thesis unfolding ToFloat_def e r by simp
qed

lemma ToFloat_4_5: "ToFloat (4/5) = 13421773/16777216"
proof -
  have e: "FloatExponent (4/5) = - 1"
    by (simp add: FloatExponent_def eval_nat_numeral)
  have r: "RoundHalfEven ((4/5) / 2 powi (- 1 - 23)) = 13421773"
    by (simp add: RoundHalfEven_def Let_def)
  show ?thesis unfolding ToFloat_def e r by simp
qed

lemma ToFloat_1_5: "ToFloat (1/5) = 13421773/67108864"
proof -
  have e: "FloatExponent (1/5) = - 3"
    by (simp add: FloatExponent_def eval_nat_numeral)
  have r: "RoundHalfEven ((1/5) / 2 powi (- 3 - 23)) = 13421773"
    by (simp add: RoundHalfEven_def Let_def)
  show ?thesis unfolding ToFloat_def e r by simp
qed

lemma ToFloat_2_5: "ToFloat (2/5) = 13421773/33554432"
proof -
  have e: "FloatExponent (2/5) = - 2"
    by (simp add: FloatExponent_def eval_nat_numeral)
  have r: "RoundHalfEven ((2/5) / 2 powi (- 2 - 23)) = 13421773"
    by (simp add: RoundHalfEven_def Let_def)
  show ?thesis unfolding ToFloat_def e r by simp
qed

lemma ToFloat_1_10: "ToFloat (1/10) = 13421773/134217728"
proof -
  have e: "FloatExponent (1/10) = - 4"
    by (simp add: FloatExponent_def eval_nat_numeral)
  have r: "RoundHalfEven ((1/10) / 2 powi (- 4 - 23)) = 13421773"
    by (simp add: RoundHalfEven_def Let_def)
  show ?thesis unfolding ToFloat_def e r by simp
qed

lemma ToFloat_3_10: "ToFloat (3/10) = 5033165/16777216"
proof -
  have e: "FloatExponent (3/10) = - 2"
    by (simp add: FloatExponent_def eval_nat_numeral)
  have r: "RoundHalfEven ((3/10) / 2 powi (- 2 - 23)) = 10066330"
    by (simp add: RoundHalfEven_def Let_def)
  show ?thesis unfolding ToFloat_def e r by simp
qed

lemma ToFloat_7_10: "ToFloat (7/10) = 11744051/16777216"
proof -
  have e: "FloatExponent (7/10) = - 1"
    by (simp add: FloatExponent_def eval_nat_numeral)
  have r: "RoundHalfEven ((7/10) / 2 powi (- 1 - 23)) = 11744051"
    by (simp add: RoundHalfEven_def Let_def)
  show ?thesis unfolding ToFloat_def e r by simp
qed

lemma ToFloat_ksn: "ToFloat (1/10000) = 13743895/137438953472"
proof -
  have e: "FloatExponent (1/10000) = - 14"
    by (simp add: FloatExponent_def eval_nat_numeral)
  have r: "RoundHalfEven ((1/10000) / 2 powi (- 14 - 23)) = 13743895"
    by (simp add: RoundHalfEven_def Let_def)
  show ?thesis unfolding ToFloat_def e r by simp
qed

lemma ToFloat_late: "ToFloat (50000009/500) = 6400001/64"
proof -
  have e: "FloatExponent (50000009/500) = 16"
    by (simp add: FloatExponent_def eval_nat_numeral)
  have r: "RoundHalfEven ((50000009/500) / 2 powi (16 - 23)) = 12800002"
    by (simp add: RoundHalfEven_def Let_def)
  show ?thesis unfolding ToFloat_def e r by simp
qed

lemma ToFloat_1e5: "ToFloat 100000 = 100000"
proof -
  have e: "FloatExponent 100000 = 16"
    by (simp add: FloatExponent_def eval_nat_numeral)
  have r: "RoundHalfEven (100000 / 2 powi (16 - 23)) = 12800000"
    by (simp add: RoundHalfEven_def Let_def)
  show ?thesis unfolding ToFloat_def e r by simp
qed

lemma ToFloat_half_plus: "ToFloat (500000001/1000000000) = 1/2"
proof -
  have e: "FloatExponent (500000001/1000000000) = - 1"
    by (simp add: FloatExponent_def eval_nat_numeral)
  have r: "RoundHalfEven ((500000001/1000000000) / 2 powi (- 1 - 23)) = 8388608"
    by (simp add: RoundHalfEven_def Let_def)
  show ?thesis unfolding ToFloat_def e r by simp
qed

lemma ToFloat_q_half: "ToFloat (33554432/67108865) = 1/2"
proof -
  have e: "FloatExponent (33554432/67108865) = - 2"
    by (simp add: FloatExponent_def eval_nat_numeral)
  have r: "RoundHalfEven ((33554432/67108865) / 2 powi (- 2 - 23)) = 16777216"
    by (simp add: RoundHalfEven_def Let_def)
  show ?thesis unfolding ToFloat_def e r by simp
qed

lemma ToFloat_q_third: "ToFloat (8388608/25165825) = 5592405/16777216"
proof -
  have e: "FloatExponent (8388608/25165825) = - 2"
    by (simp add: FloatExponent_def eval_nat_numeral)
  have r: "RoundHalfEven ((8388608/25165825) / 2 powi (- 2 - 23)) = 11184810"
    by (simp add: RoundHalfEven_def Let_def)
  show ?thesis unfolding ToFloat_def e r by simp
qed

lemma ToFloat_tiny: "ToFloat (1/2854495385411919762116571938898990272765493248) = 0"
proof -
  have e: "FloatExponent (1/2854495385411919762116571938898990272765493248) = - 126"
    by (simp add: FloatExponent_def eval_nat_numeral)
  have r: "RoundHalfEven ((1/2854495385411919762116571938898990272765493248) / 2 powi (- 126 - 23)) = 0"
    by (simp add: RoundHalfEven_def Let_def)
  show ?thesis unfolding ToFloat_def e r by simp
qed

lemmas ToFloat_values =
  ToFloat_zero ToFloat_one ToFloat_half ToFloat_4_5 ToFloat_1_5
  ToFloat_2_5 ToFloat_1_10 ToFloat_3_10 ToFloat_7_10 ToFloat_ksn
  ToFloat_late ToFloat_1e5 ToFloat_half_plus ToFloat_q_half ToFloat_q_third
  ToFloat_tiny







subsection \<open>Queries\<close>

text \<open>
  C10. A query on a component whose owner is null, or whose history holds no
  node (before the first record), returns the default frame package: time 0,
  so not valid. With a null owner the answer is the same for every history,
  so no history node is read. The query is a total function.
\<close>

theorem C10_query_before_first_record:
  "GetFramePackage (c\<lparr>GetOwner := None\<rparr>) t = FFramePackage_default
   \<and> GetFramePackage (c\<lparr>FrameHistory := []\<rparr>) t = FFramePackage_default
   \<and> Time FFramePackage_default = 0
   \<and> \<not> IsValid FFramePackage_default"
  by (simp add: GetFramePackage_def FFramePackage_default_def IsValid_def)








lemmas query_eval =
  NewComponent_def FrameAt_def GetFramePackage_def InterpBetweenFrames_def InterpFraction_def
  Distance_def Clamp_def VInterpTo_def BoxAt_def Lerp_def vec_sub_def vec_add_def vec_scale_def
  SizeSquared_def KINDA_SMALL_NUMBER_def ToFloat_values


text \<open>
  C3 fails on the code. The range tests compare the query time with the oldest
  and the newest time as rounded to \<open>float\<close>. A history holding the single
  frame of time 0.1, queried at 0.1 (not older than the oldest frame, and at
  the newest frame's time), returns the default frame package, not the newest
  frame: 0.1 rounds up. A history with frames at 1.0 and 0.7, queried at
  0.69999999 (older than the oldest frame), returns a valid package with the
  query time and the corners of the oldest frame, not the default package:
  0.7 rounds down to 0.699999988.
\<close>
theorem C3_rounded_range_tests:
  "FrameHistory SingleHistory = [FrameAt (1/10) 0]
   \<and> Time (FrameAt (1/10) 0) = 1/10
   \<and> GetFramePackage SingleHistory (1/10) = FFramePackage_default
   \<and> last (FrameHistory TwoFrameHistory) = FrameAt (7/10) 0
   \<and> 69999999/100000000 < Time (FrameAt (7/10) 0)
   \<and> GetFramePackage TwoFrameHistory (69999999/100000000) =
        \<lparr>HitBox = (BoxAt 0)\<lparr>boxIsValid := False\<rparr>, bTeleported = False, Time = 69999999/100000000\<rparr>
   \<and> IsValid (GetFramePackage TwoFrameHistory (69999999/100000000))"
  by (simp add: SingleHistory_def TwoFrameHistory_def FFramePackage_default_def FBox_ForceInit_def
        ZeroVector_def IsValid_def query_eval)




subsection \<open>Recording\<close>






section \<open>Properties of the class policy resolver and of routing\<close>

lemma memo_invariant:
  "GetClassNodeMapping (P(k \<mapsto> GetClassNodeMapping P k)) (Some c) = GetClassNodeMapping P (Some c)"
proof (induction c)
  case UObject_StaticClass
  then show ?case by (cases k) (auto simp: GetClassNodeMapping.simps split: option.splits)
next
  case (SubClass name cdo super)
  then show ?case by (auto simp: GetClassNodeMapping.simps split: option.splits)
qed

text \<open>
  C1 as stated fails: a class that is not replicated, under a super class with
  the same flags that has an explicit mapping, resolves to \<open>NotRouted\<close>, not
  to the super class's category.
\<close>
theorem C1_reference_order_counterexample:
  "GetClassNodeMapping (Map.empty(Some Marker_Class \<mapsto> Spatialize_Static)) (Some MarkerChild_Class)
     = NotRouted
   \<and> resolve_spec (Map.empty(Some Marker_Class \<mapsto> Spatialize_Static)) (Some MarkerChild_Class)
     = Spatialize_Static"
  by (simp add: MarkerChild_Class_def Marker_Class_def AActor_StaticClass_def PlainActor_def
        SameRelevancy_def GetClassNodeMapping.simps resolve_spec.simps)

text \<open>
  C1 (as amended). The resolver returns \<open>NotRouted\<close> for a null class; a stored
  mapping is returned as it is; without one, a class whose default object is
  not an actor or is not replicated resolves to \<open>NotRouted\<close>, before any
  comparison with the ancestor; a replicated class whose four flags equal those
  of its super class resolves as the super class does; any other replicated
  class resolves to \<open>Spatialize_Dynamic\<close> when none of the three relevancy
  flags is set, to \<open>RelevantAllConnections\<close> when it is always relevant and not
  only relevant to its owner, and to \<open>NotRouted\<close> otherwise. Storing the
  resolved category of any class changes no resolution, so resolving twice
  gives the same category.
\<close>
theorem C1_resolver_cases:
  "GetClassNodeMapping P None = NotRouted
   \<and> (P (Some c) = Some m \<longrightarrow> GetClassNodeMapping P (Some c) = m)
   \<and> (P (Some c) = None \<and> DefaultActor c = None \<longrightarrow> GetClassNodeMapping P (Some c) = NotRouted)
   \<and> (P (Some c) = None \<and> DefaultActor c = Some a \<and> \<not> bReplicates a \<longrightarrow>
         GetClassNodeMapping P (Some c) = NotRouted)
   \<and> (P (Some c) = None \<and> DefaultActor c = Some a \<and> bReplicates a
        \<and> DefaultActor (GetSuperClass c) = Some b \<and> SameRelevancy b a \<longrightarrow>
         GetClassNodeMapping P (Some c) = GetClassNodeMapping P (Some (GetSuperClass c)))
   \<and> (P (Some c) = None \<and> DefaultActor c = Some a \<and> bReplicates a
        \<and> (\<forall>b. DefaultActor (GetSuperClass c) = Some b \<longrightarrow> \<not> SameRelevancy b a) \<longrightarrow>
         GetClassNodeMapping P (Some c) =
           (if \<not> (bAlwaysRelevant a \<or> bOnlyRelevantToOwner a \<or> bNetUseOwnerRelevancy a)
              then Spatialize_Dynamic
            else if bAlwaysRelevant a \<and> \<not> bOnlyRelevantToOwner a then RelevantAllConnections
            else NotRouted))
   \<and> GetClassNodeMapping (RegisterClassRepNodeMapping P k) d = GetClassNodeMapping P d"
proof -
  have memo: "GetClassNodeMapping (RegisterClassRepNodeMapping P k) d = GetClassNodeMapping P d"
    by (cases d) (simp_all add: RegisterClassRepNodeMapping_def memo_invariant GetClassNodeMapping.simps)
  have rest: "(P (Some c) = Some m \<longrightarrow> GetClassNodeMapping P (Some c) = m)
   \<and> (P (Some c) = None \<and> DefaultActor c = None \<longrightarrow> GetClassNodeMapping P (Some c) = NotRouted)
   \<and> (P (Some c) = None \<and> DefaultActor c = Some a \<and> \<not> bReplicates a \<longrightarrow>
         GetClassNodeMapping P (Some c) = NotRouted)
   \<and> (P (Some c) = None \<and> DefaultActor c = Some a \<and> bReplicates a
        \<and> DefaultActor (GetSuperClass c) = Some b \<and> SameRelevancy b a \<longrightarrow>
         GetClassNodeMapping P (Some c) = GetClassNodeMapping P (Some (GetSuperClass c)))
   \<and> (P (Some c) = None \<and> DefaultActor c = Some a \<and> bReplicates a
        \<and> (\<forall>b. DefaultActor (GetSuperClass c) = Some b \<longrightarrow> \<not> SameRelevancy b a) \<longrightarrow>
         GetClassNodeMapping P (Some c) =
           (if \<not> (bAlwaysRelevant a \<or> bOnlyRelevantToOwner a \<or> bNetUseOwnerRelevancy a)
              then Spatialize_Dynamic
            else if bAlwaysRelevant a \<and> \<not> bOnlyRelevantToOwner a then RelevantAllConnections
            else NotRouted))"
    by (cases c) (auto simp: ShouldSpatialize_def GetClassNodeMapping.simps split: option.splits)
  from memo rest show ?thesis by (simp add: GetClassNodeMapping.simps(1))
qed

lemma InitialGraph_policies:
  "ClassRepNodePolicies InitialGraph = RegisterClassRepNodeMapping Map.empty (Some GameState_Class)"
  by (simp add: InitialGraph_def RegisterClassRepNodeMapping_def GameState_Class_def
        AActor_StaticClass_def PlainActor_def GetClassNodeMapping.simps SameRelevancy_def
        ShouldSpatialize_def)

lemma GetMappingPolicy_fst:
  "fst (GetMappingPolicy g k) = (case ClassRepNodePolicies g k of Some m \<Rightarrow> m
                                 | None \<Rightarrow> GetClassNodeMapping (ClassRepNodePolicies g) k)"
  by (simp add: GetMappingPolicy_def ClassMap_Get_def split: option.splits)

lemma GetMappingPolicy_snd:
  "snd (GetMappingPolicy g k) =
     g\<lparr>ClassRepNodePolicies :=
         (case ClassRepNodePolicies g k of Some m \<Rightarrow> ClassRepNodePolicies g
          | None \<Rightarrow> (ClassRepNodePolicies g)(k \<mapsto> GetClassNodeMapping (ClassRepNodePolicies g) k))\<rparr>"
  by (simp add: GetMappingPolicy_def ClassMap_Get_def split: option.splits)

lemma GetMappingPolicy_stable:
  "fst (GetMappingPolicy (snd (GetMappingPolicy g k)) k) = fst (GetMappingPolicy g k)"
  by (simp add: GetMappingPolicy_fst GetMappingPolicy_snd split: option.splits)


lemma GetMappingPolicy_cong:
  "ClassRepNodePolicies g = ClassRepNodePolicies g' \<Longrightarrow>
   fst (GetMappingPolicy g k) = fst (GetMappingPolicy g' k)"
  by (auto simp: GetMappingPolicy_fst split: option.splits)


lemma RemoveFast_present: "a \<in> set l \<Longrightarrow> fst (RemoveFast l a)"
  by (induction l) (auto simp: RemoveFast_def split: option.splits)







lemma RemoveAtSwap_mid:
  "RemoveAtSwap (pre @ R # S) (length pre) = (if S = [] then pre else pre @ last S # butlast S)"
  by (auto simp: RemoveAtSwap_def list_update_append butlast_append)







text \<open>The amended C1 on a small class hierarchy.\<close>
theorem C1_resolver_witness:
  "GetClassNodeMapping Map.empty (Some Character_Class)
     = GetClassNodeMapping Map.empty (Some Pawn_Class)
   \<and> GetClassNodeMapping Map.empty (Some Pawn_Class) = Spatialize_Dynamic
   \<and> GetClassNodeMapping Map.empty (Some GameState_Class) = RelevantAllConnections
   \<and> GetClassNodeMapping Map.empty (Some MarkerChild_Class) = NotRouted
   \<and> GetClassNodeMapping Map.empty (Some UObject_StaticClass) = NotRouted
   \<and> GetClassNodeMapping (Map.empty(Some Marker_Class \<mapsto> Spatialize_Static)) (Some Marker_Class)
       = Spatialize_Static"
  using C1_resolver_cases [of Map.empty Character_Class _ ReplicatedActor ReplicatedActor]
        C1_resolver_cases [of Map.empty Pawn_Class _ ReplicatedActor]
        C1_resolver_cases [of Map.empty GameState_Class _
           "\<lparr>bReplicates = True, bAlwaysRelevant = True, bOnlyRelevantToOwner = False,
             bNetUseOwnerRelevancy = False\<rparr>"]
        C1_resolver_cases [of Map.empty MarkerChild_Class _ PlainActor]
        C1_resolver_cases [of Map.empty UObject_StaticClass]
        C1_resolver_cases [of "Map.empty(Some Marker_Class \<mapsto> Spatialize_Static)" Marker_Class
           Spatialize_Static]
  by (simp add: Character_Class_def Pawn_Class_def GameState_Class_def MarkerChild_Class_def
        Marker_Class_def AActor_StaticClass_def PlainActor_def ReplicatedActor_def SameRelevancy_def)

section \<open>Properties of the frequency limiter\<close>

lemma PrepareLoop_filter:
  "PrepareLoop T world Lists
     = foldl (AddToCurrentList T) Lists (map PlayerStateActor (filter bValidForReplicationGather world))"
  by (induction world arbitrary: Lists) auto

lemma ten_elems:
  "length (xs :: 'a list) = 10 \<Longrightarrow> \<exists>a0 a1 a2 a3 a4 a5 a6 a7 a8 a9. xs = [a0, a1, a2, a3, a4, a5, a6, a7, a8, a9]"
  by (auto simp: numeral_eq_Suc length_Suc_conv)

lemma frame_mod4:
  fixes f k :: "32 word"
  shows "unat (f + k) mod 4 = (unat f + unat k) mod 4"
proof -
  have "unat (f + k) = (unat f + unat k) mod 2 ^ 32"
    by (simp add: unat_word_ariths)
  moreover have "(4::nat) dvd 2 ^ 32" by simp
  ultimately show ?thesis by (simp add: mod_mod_cancel)
qed

text \<open>
  C7. With ten valid, distinct candidates and a target of three per frame, the
  prepare pass builds four lists of sizes 3, 3, 3, 1 that hold the candidates
  in order, and builds the same lists again in every frame in which the world
  is the same. Every gather returns exactly the list at index
  \<open>ReplicationFrameNum mod 4\<close>; over four consecutive frames (also across
  the wrap of the 32 bit frame counter) the four returned lists hold every
  candidate exactly once, and no list holds a candidate twice.
\<close>
theorem C7_ten_candidates_four_buckets:
  assumes "map PlayerStateActor (filter bValidForReplicationGather world) = valid"
    "length valid = 10" "distinct valid" "TargetActorsPerFrame node = 3"
  shows "map length (ReplicationActorLists (PrepareForReplication node world)) = [3, 3, 3, 1]
       \<and> concat (ReplicationActorLists (PrepareForReplication node world)) = valid
       \<and> PrepareForReplication (PrepareForReplication node world) world
           = PrepareForReplication node world
       \<and> (\<exists>b0 b1 b2 b3.
             FrequencyLimiter_GatherActorListsForConnection (PrepareForReplication node world) f []
               = Inr [b0]
           \<and> b0 = ReplicationActorLists (PrepareForReplication node world) ! (unat f mod 4)
           \<and> FrequencyLimiter_GatherActorListsForConnection (PrepareForReplication node world) (f + 1) []
               = Inr [b1]
           \<and> FrequencyLimiter_GatherActorListsForConnection (PrepareForReplication node world) (f + 2) []
               = Inr [b2]
           \<and> FrequencyLimiter_GatherActorListsForConnection (PrepareForReplication node world) (f + 3) []
               = Inr [b3]
           \<and> distinct b0
           \<and> distinct (b0 @ b1 @ b2 @ b3)
           \<and> set (b0 @ b1 @ b2 @ b3) = set valid)"
proof -
  from ten_elems[OF assms(2)] obtain a0 a1 a2 a3 a4 a5 a6 a7 a8 a9 where
    v: "valid = [a0, a1, a2, a3, a4, a5, a6, a7, a8, a9]" by blast
  define node' where "node' = PrepareForReplication node world"
  have Lists: "ReplicationActorLists node' = [[a0, a1, a2], [a3, a4, a5], [a6, a7, a8], [a9]]"
    and force: "ForceNetUpdateReplicationActorList node' = []"
    using assms(1,4) v
    by (simp_all add: node'_def PrepareForReplication_def PrepareLoop_filter AddToCurrentList_def)
  have g: "FrequencyLimiter_GatherActorListsForConnection node' k []
             = Inr [[[a0, a1, a2], [a3, a4, a5], [a6, a7, a8], [a9]] ! (unat k mod 4)]" for k
    by (simp add: FrequencyLimiter_GatherActorListsForConnection_def Lists force)
  have m: "unat (f + 1) mod 4 = (unat f + 1) mod 4" "unat (f + 2) mod 4 = (unat f + 2) mod 4"
    "unat (f + 3) mod 4 = (unat f + 3) mod 4"
    using frame_mod4[of f 1] frame_mod4[of f 2] frame_mod4[of f 3] by simp_all
  have "unat f mod 4 < 4" by simp
  then consider "unat f mod 4 = 0" | "unat f mod 4 = 1" | "unat f mod 4 = 2" | "unat f mod 4 = 3"
    by linarith
  then have rot: "distinct ([[a0, a1, a2], [a3, a4, a5], [a6, a7, a8], [a9]] ! (unat f mod 4))
      \<and> distinct ([[a0, a1, a2], [a3, a4, a5], [a6, a7, a8], [a9]] ! (unat f mod 4)
                 @ [[a0, a1, a2], [a3, a4, a5], [a6, a7, a8], [a9]] ! (unat (f + 1) mod 4)
                 @ [[a0, a1, a2], [a3, a4, a5], [a6, a7, a8], [a9]] ! (unat (f + 2) mod 4)
                 @ [[a0, a1, a2], [a3, a4, a5], [a6, a7, a8], [a9]] ! (unat (f + 3) mod 4))
      \<and> set ([[a0, a1, a2], [a3, a4, a5], [a6, a7, a8], [a9]] ! (unat f mod 4)
                 @ [[a0, a1, a2], [a3, a4, a5], [a6, a7, a8], [a9]] ! (unat (f + 1) mod 4)
                 @ [[a0, a1, a2], [a3, a4, a5], [a6, a7, a8], [a9]] ! (unat (f + 2) mod 4)
                 @ [[a0, a1, a2], [a3, a4, a5], [a6, a7, a8], [a9]] ! (unat (f + 3) mod 4))
          = set valid"
  proof cases
    case 1
    then have "(unat f + 1) mod 4 = 1" "(unat f + 2) mod 4 = 2" "(unat f + 3) mod 4 = 3"
      by presburger+
    with 1 m assms(3) v show ?thesis by auto
  next
    case 2
    then have "(unat f + 1) mod 4 = 2" "(unat f + 2) mod 4 = 3" "(unat f + 3) mod 4 = 0"
      by presburger+
    with 2 m assms(3) v show ?thesis by auto
  next
    case 3
    then have "(unat f + 1) mod 4 = 3" "(unat f + 2) mod 4 = 0" "(unat f + 3) mod 4 = 1"
      by presburger+
    with 3 m assms(3) v show ?thesis by auto
  next
    case 4
    then have "(unat f + 1) mod 4 = 0" "(unat f + 2) mod 4 = 1" "(unat f + 3) mod 4 = 2"
      by presburger+
    with 4 m assms(3) v show ?thesis by auto
  qed
  have "map length (ReplicationActorLists node') = [3, 3, 3, 1]"
    "concat (ReplicationActorLists node') = valid"
    "PrepareForReplication node' world = node'"
    by (simp_all add: Lists v) (simp add: node'_def PrepareForReplication_def)
  with g[of f] g[of "f + 1"] g[of "f + 2"] g[of "f + 3"] rot Lists show ?thesis
    unfolding node'_def[symmetric] by simp
qed

text \<open>C7 on the world of the ten players 0 to 9.\<close>
theorem C7_ten_candidates_witness:
  "map PlayerStateActor (filter bValidForReplicationGather TenPlayers) = [0, 1, 2, 3, 4, 5, 6, 7, 8, 9]
   \<and> length [0, 1, 2, 3, 4, 5, 6, 7, 8, 9 :: nat] = 10
   \<and> distinct [0, 1, 2, 3, 4, 5, 6, 7, 8, 9 :: nat]
   \<and> TargetActorsPerFrame (NewLimiter 3) = 3
   \<and> map length (ReplicationActorLists (PrepareForReplication (NewLimiter 3) TenPlayers)) = [3, 3, 3, 1]
   \<and> concat (ReplicationActorLists (PrepareForReplication (NewLimiter 3) TenPlayers))
       = [0, 1, 2, 3, 4, 5, 6, 7, 8, 9]"
proof -
  have h: "map PlayerStateActor (filter bValidForReplicationGather TenPlayers)
             = [0, 1, 2, 3, 4, 5, 6, 7, 8, 9]"
    "length [0, 1, 2, 3, 4, 5, 6, 7, 8, 9 :: nat] = 10"
    "distinct [0, 1, 2, 3, 4, 5, 6, 7, 8, 9 :: nat]"
    "TargetActorsPerFrame (NewLimiter 3) = 3"
    by (simp_all add: TenPlayers_def NewLimiter_def)
  from C7_ten_candidates_four_buckets[OF h] h show ?thesis by blast
qed

text \<open>
  C8 fails on the code: the prepare pass leaves the list for forced updates
  empty whatever the world is, so a candidate with a pending forced update sits
  in a rotating list only. With a target of two and three players, the third
  with a forced update pending, the gather of frame 0 returns the first list
  alone.
\<close>
theorem C8_force_list_never_filled:
  "ForceNetUpdateReplicationActorList (PrepareForReplication node world) = []
   \<and> ReplicationActorLists (PrepareForReplication (NewLimiter 2) ThreePlayers) = [[0, 1], [2]]
   \<and> FrequencyLimiter_GatherActorListsForConnection
        (PrepareForReplication (NewLimiter 2) ThreePlayers) 0 [] = Inr [[0, 1]]"
  by (simp add: PrepareForReplication_def NewLimiter_def ThreePlayers_def AddToCurrentList_def
        FrequencyLimiter_GatherActorListsForConnection_def)

section \<open>Properties of the always relevant node of a connection\<close>

lemma smod2: "0 \<le> c \<Longrightarrow> (c::int) smod 2 = c mod 2"
  by (cases "c = 0") (auto simp: signed_modulo_int_def sgn_if)

lemma bReplicatePS_uint:
  assumes "0 \<le> c"
  shows "bReplicatePS c f \<longleftrightarrow> c mod 2 = uint f mod 2"
proof -
  have a: "uint (word_of_int (c mod 2) :: 32 word) = c mod 2"
  proof -
    have "0 \<le> c mod 2" "c mod 2 < 2 ^ 32"
      using pos_mod_bound[of 2 c] by simp_all
    then show ?thesis by (simp add: uint_word_of_int)
  qed
  have b: "uint (f mod 2) = uint f mod 2"
    by (simp add: uint_mod)
  have "bReplicatePS c f \<longleftrightarrow> uint (word_of_int (c mod 2) :: 32 word) = uint (f mod 2)"
    using assms by (simp add: bReplicatePS_def smod2 word_uint_eq_iff)
  with a b show ?thesis by simp
qed

lemma uint_succ_mod2: "uint ((f :: 32 word) + 1) mod 2 = (uint f + 1) mod 2"
proof -
  have "uint (f + 1) = (uint f + 1) mod 2 ^ 32"
    by (simp add: uint_word_ariths)
  moreover have "(2::int) dvd 2 ^ 32" by simp
  ultimately show ?thesis by (simp add: mod_mod_cancel)
qed

lemma bReplicatePS_parity:
  "0 \<le> c \<Longrightarrow> bReplicatePS c f \<longleftrightarrow> (c + uint f) mod 2 = 0"
  by (simp add: bReplicatePS_uint) presburger

lemma bReplicatePS_alternates:
  "0 \<le> c \<Longrightarrow> bReplicatePS c (f + 1) \<longleftrightarrow> \<not> bReplicatePS c f"
  by (simp add: bReplicatePS_uint uint_succ_mod2) presburger

lemma bReplicatePS_neighbours:
  "0 \<le> c \<Longrightarrow> bReplicatePS (c + 1) f \<longleftrightarrow> \<not> bReplicatePS c f"
  by (simp add: bReplicatePS_uint) presburger

lemma FindOrAdd_dormant:
  "bDormantOnConnection (fst (FindOrAdd m a)) = IsDormantOnConnection m a"
  "IsDormantOnConnection (snd (FindOrAdd m a)) b = IsDormantOnConnection m b"
  by (auto simp: FindOrAdd_def IsDormantOnConnection_def FConnectionReplicationActorInfo_default_def
        split: option.splits)

lemma AllDormantScan_result:
  "fst (AllDormantScan l m) = AllDormantOnConnection m l
   \<and> (\<forall>b. IsDormantOnConnection (snd (AllDormantScan l m)) b = IsDormantOnConnection m b)"
proof (induction l arbitrary: m)
  case Nil
  then show ?case by (simp add: AllDormantOnConnection_def)
next
  case (Cons a l)
  obtain i m' where f: "FindOrAdd m a = (i, m')" by (cases "FindOrAdd m a")
  with FindOrAdd_dormant[of m a] have
    i: "bDormantOnConnection i = IsDormantOnConnection m a"
    and m': "\<And>b. IsDormantOnConnection m' b = IsDormantOnConnection m b"
    by simp_all
  show ?case
  proof (cases "bDormantOnConnection i")
    case False
    with f i m' show ?thesis by (simp add: AllDormantOnConnection_def)
  next
    case True
    with f i m' Cons.IH[of m'] show ?thesis by (simp add: AllDormantOnConnection_def)
  qed
qed

lemma StreamingLevelStep_at:
  assumes "LevelsNeedingReplication s = pre @ R # S"
  shows "\<exists>S'. LevelsNeedingReplication (StreamingLevelStep M (length pre) s) = pre @ S'
      \<and> set S' = (if LevelStaysTracked M (LoopActorInfoMap s) R then {R} else {}) \<union> set S
      \<and> LoopOutLists (StreamingLevelStep M (length pre) s)
          = LoopOutLists s @ LevelContribution M (LoopActorInfoMap s) R
      \<and> (\<forall>b. IsDormantOnConnection (LoopActorInfoMap (StreamingLevelStep M (length pre) s)) b
              = IsDormantOnConnection (LoopActorInfoMap s) b)
      \<and> LoopWarnings (StreamingLevelStep M (length pre) s)
          = LoopWarnings s @ (if M R = Some [] then [EmptyRepListWarning] else [])"
proof -
  have nth: "LevelsNeedingReplication s ! length pre = R" using assms by simp
  have rm: "RemoveAtSwap (LevelsNeedingReplication s) (length pre)
              = pre @ (if S = [] then [] else last S # butlast S)"
    using assms by (simp add: RemoveAtSwap_mid)
  have setrm: "set (if S = [] then [] else last S # butlast S) = set S"
    by (cases S rule: rev_cases) auto
  show ?thesis
  proof (cases "M R")
    case None
    with nth rm setrm show ?thesis
      by (intro exI[of _ "if S = [] then [] else last S # butlast S"])
         (simp add: StreamingLevelStep_def LevelStaysTracked_def LevelContribution_def)
  next
    case (Some l)
    show ?thesis
    proof (cases "l = []")
      case True
      with Some nth assms show ?thesis
        by (intro exI[of _ "R # S"])
           (simp add: StreamingLevelStep_def LevelStaysTracked_def LevelContribution_def)
    next
      case False
      obtain d m' where sc: "AllDormantScan l (LoopActorInfoMap s) = (d, m')"
        by (cases "AllDormantScan l (LoopActorInfoMap s)")
      with AllDormantScan_result[of l "LoopActorInfoMap s"] have
        d: "d = AllDormantOnConnection (LoopActorInfoMap s) l"
        and m': "\<And>b. IsDormantOnConnection m' b = IsDormantOnConnection (LoopActorInfoMap s) b"
        by simp_all
      show ?thesis
      proof (cases d)
        case True
        with Some False sc d m' nth rm setrm show ?thesis
          by (intro exI[of _ "if S = [] then [] else last S # butlast S"])
             (simp add: StreamingLevelStep_def LevelStaysTracked_def LevelContribution_def)
      next
        case nd: False
        with Some False sc d m' nth assms show ?thesis
          by (intro exI[of _ "R # S"])
             (simp add: StreamingLevelStep_def LevelStaysTracked_def LevelContribution_def)
      qed
    qed
  qed
qed

lemma StreamingLevelLoop_result:
  "LevelsNeedingReplication s = pre @ S \<Longrightarrow>
   set (LevelsNeedingReplication (StreamingLevelLoop M (length pre) s))
       = {R \<in> set pre. LevelStaysTracked M (LoopActorInfoMap s) R} \<union> set S
   \<and> LoopOutLists (StreamingLevelLoop M (length pre) s)
       = LoopOutLists s @ concat (map (LevelContribution M (LoopActorInfoMap s)) (rev pre))
   \<and> (\<forall>b. IsDormantOnConnection (LoopActorInfoMap (StreamingLevelLoop M (length pre) s)) b
           = IsDormantOnConnection (LoopActorInfoMap s) b)
   \<and> LoopWarnings (StreamingLevelLoop M (length pre) s)
       = LoopWarnings s @ replicate (length (filter (\<lambda>R. M R = Some []) pre)) EmptyRepListWarning"
proof (induction pre arbitrary: s S rule: rev_induct)
  case Nil
  then show ?case by simp
next
  case (snoc R pre)
  then have L: "LevelsNeedingReplication s = pre @ R # S" by simp
  from StreamingLevelStep_at[OF L, of M] obtain S' where
    st: "LevelsNeedingReplication (StreamingLevelStep M (length pre) s) = pre @ S'"
        "set S' = (if LevelStaysTracked M (LoopActorInfoMap s) R then {R} else {}) \<union> set S"
        "LoopOutLists (StreamingLevelStep M (length pre) s)
          = LoopOutLists s @ LevelContribution M (LoopActorInfoMap s) R"
        "\<And>b. IsDormantOnConnection (LoopActorInfoMap (StreamingLevelStep M (length pre) s)) b
              = IsDormantOnConnection (LoopActorInfoMap s) b"
        "LoopWarnings (StreamingLevelStep M (length pre) s)
          = LoopWarnings s @ (if M R = Some [] then [EmptyRepListWarning] else [])"
    by blast
  have same: "LevelStaysTracked M (LoopActorInfoMap (StreamingLevelStep M (length pre) s)) =
              LevelStaysTracked M (LoopActorInfoMap s)"
    "LevelContribution M (LoopActorInfoMap (StreamingLevelStep M (length pre) s)) =
              LevelContribution M (LoopActorInfoMap s)"
    using st(4)
    by (auto simp: fun_eq_iff LevelStaysTracked_def LevelContribution_def AllDormantOnConnection_def
          split: option.splits)
  from snoc.IH[OF st(1)] st(2,3,4,5) same show ?case
    by (auto simp: replicate_add[symmetric] simp del: replicate_add)
qed

lemma set_ConditionalAdd: "set (ConditionalAdd l a) = insert a (set l)"
  by (auto simp: ConditionalAdd_def Contains_def)

lemma AddPlayerState_result:
  "AddPlayerState PS (node, mgr) = (node', mgr') \<Longrightarrow>
     set (ReplicationActorList node') = insert PS (set (ReplicationActorList node))
   \<and> AlwaysRelevantStreamingLevelsNeedingReplication node'
       = AlwaysRelevantStreamingLevelsNeedingReplication node
   \<and> ConnectionOrderNum mgr' = ConnectionOrderNum mgr
   \<and> (\<forall>b. IsDormantOnConnection (ActorInfoMap mgr') b = IsDormantOnConnection (ActorInfoMap mgr) b)"
  by (auto simp: AddPlayerState_def Let_def set_ConditionalAdd FindOrAdd_def IsDormantOnConnection_def
        FConnectionReplicationActorInfo_default_def split: if_splits option.splits)

lemma ViewerStep_result:
  assumes "ViewerStep f v (node, mgr) = (node', mgr')"
  shows "set (ReplicationActorList node')
           = set (ReplicationActorList node) \<union> ViewerActors (bReplicatePS (ConnectionOrderNum mgr) f) v
   \<and> AlwaysRelevantStreamingLevelsNeedingReplication node'
       = AlwaysRelevantStreamingLevelsNeedingReplication node
   \<and> ConnectionOrderNum mgr' = ConnectionOrderNum mgr
   \<and> (\<forall>b. IsDormantOnConnection (ActorInfoMap mgr') b = IsDormantOnConnection (ActorInfoMap mgr) b)"
proof (cases "InViewer_AsPlayerController v")
  case None
  with assms show ?thesis
    by (auto simp: ViewerStep_def Let_def ViewerActors_def set_ConditionalAdd)
next
  case (Some PC)
  define node1 where "node1 = node\<lparr>ReplicationActorList :=
       ConditionalAdd (ConditionalAdd (ReplicationActorList node) (InViewer v)) (ViewTarget v)\<rparr>"
  define st2 where "st2 =
       (if bReplicatePS (ConnectionOrderNum mgr) f
        then (case PlayerState PC of None \<Rightarrow> (node1, mgr) | Some PS \<Rightarrow> AddPlayerState PS (node1, mgr))
        else (node1, mgr))"
  obtain node2 mgr2 where st2eq: "st2 = (node2, mgr2)" by (cases st2)
  have n1: "set (ReplicationActorList node1)
              = set (ReplicationActorList node) \<union> {InViewer v, ViewTarget v}"
    "AlwaysRelevantStreamingLevelsNeedingReplication node1
       = AlwaysRelevantStreamingLevelsNeedingReplication node"
    by (auto simp: node1_def set_ConditionalAdd)
  have n2: "set (ReplicationActorList node2)
              = set (ReplicationActorList node1)
                \<union> (if bReplicatePS (ConnectionOrderNum mgr) f then set_option (PlayerState PC) else {})
      \<and> AlwaysRelevantStreamingLevelsNeedingReplication node2
          = AlwaysRelevantStreamingLevelsNeedingReplication node1
      \<and> ConnectionOrderNum mgr2 = ConnectionOrderNum mgr
      \<and> (\<forall>b. IsDormantOnConnection (ActorInfoMap mgr2) b = IsDormantOnConnection (ActorInfoMap mgr) b)"
  proof (cases "bReplicatePS (ConnectionOrderNum mgr) f")
    case False
    with st2eq show ?thesis by (simp add: st2_def)
  next
    case True
    show ?thesis
    proof (cases "PlayerState PC")
      case None
      with True st2eq show ?thesis by (simp add: st2_def)
    next
      case (Some PS)
      with True st2eq have "AddPlayerState PS (node1, mgr) = (node2, mgr2)" by (simp add: st2_def)
      from AddPlayerState_result[OF this] True Some show ?thesis by simp
    qed
  qed
  have fin: "(node', mgr') =
     (case Pawn_AsCharacter PC of
        None \<Rightarrow> (node2, mgr2)
      | Some Pawn \<Rightarrow>
          if Pawn \<noteq> ViewTarget v
          then (node2\<lparr>ReplicationActorList := ConditionalAdd (ReplicationActorList node2) Pawn\<rparr>, mgr2)
          else (node2, mgr2))"
    using assms Some st2eq unfolding st2_def node1_def
    by (simp add: ViewerStep_def Let_def)
  show ?thesis
  proof (cases "Pawn_AsCharacter PC")
    case None
    with fin n1 n2 Some show ?thesis by (auto simp: ViewerActors_def)
  next
    case (Some Pawn)
    with fin n1 n2 \<open>InViewer_AsPlayerController v = Some PC\<close> show ?thesis
      by (auto simp: ViewerActors_def set_ConditionalAdd split: if_splits)
  qed
qed

lemma ViewerLoop_result:
  "ViewerLoop f vs (node, mgr) = (node', mgr') \<Longrightarrow>
     set (ReplicationActorList node')
       = set (ReplicationActorList node)
         \<union> (\<Union>v\<in>set vs. ViewerActors (bReplicatePS (ConnectionOrderNum mgr) f) v)
   \<and> AlwaysRelevantStreamingLevelsNeedingReplication node'
       = AlwaysRelevantStreamingLevelsNeedingReplication node
   \<and> ConnectionOrderNum mgr' = ConnectionOrderNum mgr
   \<and> (\<forall>b. IsDormantOnConnection (ActorInfoMap mgr') b = IsDormantOnConnection (ActorInfoMap mgr) b)"
proof (induction vs arbitrary: node mgr)
  case Nil
  then show ?case by simp
next
  case (Cons v vs)
  obtain n1 m1 where st: "ViewerStep f v (node, mgr) = (n1, m1)"
    by (cases "ViewerStep f v (node, mgr)")
  with Cons.prems have "ViewerLoop f vs (n1, m1) = (node', mgr')" by simp
  from Cons.IH[OF this] ViewerStep_result[OF st] show ?case by auto
qed

lemma Gather_result:
  assumes "AlwaysRelevant_GatherActorListsForConnection g node Params = (g', node', Params')"
  shows "set (ReplicationActorList node')
           = (\<Union>v\<in>set (Viewers Params).
                ViewerActors (bReplicatePS (ConnectionOrderNum (ConnectionManager Params))
                                (ReplicationFrameNum Params)) v)"
    and "set (AlwaysRelevantStreamingLevelsNeedingReplication node')
           = {R \<in> set (AlwaysRelevantStreamingLevelsNeedingReplication node).
                LevelStaysTracked (AlwaysRelevantStreamingLevelActors g)
                  (ActorInfoMap (ConnectionManager Params)) R}"
    and "OutGatheredReplicationLists Params'
           = OutGatheredReplicationLists Params @ [ReplicationActorList node']
             @ concat (map (LevelContribution (AlwaysRelevantStreamingLevelActors g)
                              (ActorInfoMap (ConnectionManager Params)))
                         (rev (AlwaysRelevantStreamingLevelsNeedingReplication node)))"
    and "LogWarnings g'
           = LogWarnings g
             @ replicate (length (filter (\<lambda>R. AlwaysRelevantStreamingLevelActors g R = Some [])
                                    (AlwaysRelevantStreamingLevelsNeedingReplication node)))
                 EmptyRepListWarning"
proof -
  obtain node1 mgr1 where vl:
    "ViewerLoop (ReplicationFrameNum Params) (Viewers Params)
       (node\<lparr>ReplicationActorList := []\<rparr>, ConnectionManager Params) = (node1, mgr1)"
    by (cases "ViewerLoop (ReplicationFrameNum Params) (Viewers Params)
       (node\<lparr>ReplicationActorList := []\<rparr>, ConnectionManager Params)")
  from ViewerLoop_result[OF vl] have v:
    "set (ReplicationActorList node1)
       = (\<Union>v\<in>set (Viewers Params).
            ViewerActors (bReplicatePS (ConnectionOrderNum (ConnectionManager Params))
                            (ReplicationFrameNum Params)) v)"
    "AlwaysRelevantStreamingLevelsNeedingReplication node1
       = AlwaysRelevantStreamingLevelsNeedingReplication node"
    "\<And>b. IsDormantOnConnection (ActorInfoMap mgr1) b
          = IsDormantOnConnection (ActorInfoMap (ConnectionManager Params)) b"
    by simp_all
  define s0 where "s0 =
     \<lparr>LevelsNeedingReplication = AlwaysRelevantStreamingLevelsNeedingReplication node1,
      LoopActorInfoMap = ActorInfoMap mgr1,
      LoopOutLists = OutGatheredReplicationLists Params @ [ReplicationActorList node1],
      LoopWarnings = LogWarnings g\<rparr>"
  define s where "s = StreamingLevelLoop (AlwaysRelevantStreamingLevelActors g)
                (length (AlwaysRelevantStreamingLevelsNeedingReplication node1)) s0"
  have res: "g' = g\<lparr>LogWarnings := LoopWarnings s\<rparr>"
    "node' = node1\<lparr>AlwaysRelevantStreamingLevelsNeedingReplication := LevelsNeedingReplication s\<rparr>"
    "Params' = Params\<lparr>ConnectionManager := mgr1\<lparr>ActorInfoMap := LoopActorInfoMap s\<rparr>,
                 OutGatheredReplicationLists := LoopOutLists s\<rparr>"
    using assms vl
    by (simp_all add: AlwaysRelevant_GatherActorListsForConnection_def Let_def s_def s0_def)
  have "LevelsNeedingReplication s0 = AlwaysRelevantStreamingLevelsNeedingReplication node1 @ []"
    by (simp add: s0_def)
  from StreamingLevelLoop_result[OF this, of "AlwaysRelevantStreamingLevelActors g"]
  have loop:
    "set (LevelsNeedingReplication s)
       = {R \<in> set (AlwaysRelevantStreamingLevelsNeedingReplication node1).
            LevelStaysTracked (AlwaysRelevantStreamingLevelActors g) (ActorInfoMap mgr1) R}"
    "LoopOutLists s
       = (OutGatheredReplicationLists Params @ [ReplicationActorList node1])
         @ concat (map (LevelContribution (AlwaysRelevantStreamingLevelActors g) (ActorInfoMap mgr1))
                     (rev (AlwaysRelevantStreamingLevelsNeedingReplication node1)))"
    "LoopWarnings s
       = LogWarnings g
         @ replicate (length (filter (\<lambda>R. AlwaysRelevantStreamingLevelActors g R = Some [])
                                (AlwaysRelevantStreamingLevelsNeedingReplication node1)))
             EmptyRepListWarning"
    by (simp_all add: s_def s0_def)
  have same: "LevelStaysTracked (AlwaysRelevantStreamingLevelActors g) (ActorInfoMap mgr1) =
              LevelStaysTracked (AlwaysRelevantStreamingLevelActors g)
                (ActorInfoMap (ConnectionManager Params))"
    "LevelContribution (AlwaysRelevantStreamingLevelActors g) (ActorInfoMap mgr1) =
              LevelContribution (AlwaysRelevantStreamingLevelActors g)
                (ActorInfoMap (ConnectionManager Params))"
    using v(3)
    by (auto simp: fun_eq_iff LevelStaysTracked_def LevelContribution_def AllDormantOnConnection_def
          split: option.splits)
  show "set (ReplicationActorList node')
           = (\<Union>v\<in>set (Viewers Params).
                ViewerActors (bReplicatePS (ConnectionOrderNum (ConnectionManager Params))
                                (ReplicationFrameNum Params)) v)"
    using res(2) v(1) by simp
  show "set (AlwaysRelevantStreamingLevelsNeedingReplication node')
           = {R \<in> set (AlwaysRelevantStreamingLevelsNeedingReplication node).
                LevelStaysTracked (AlwaysRelevantStreamingLevelActors g)
                  (ActorInfoMap (ConnectionManager Params)) R}"
    using res(2) loop(1) v(2) same(1) by simp
  show "OutGatheredReplicationLists Params'
           = OutGatheredReplicationLists Params @ [ReplicationActorList node']
             @ concat (map (LevelContribution (AlwaysRelevantStreamingLevelActors g)
                              (ActorInfoMap (ConnectionManager Params)))
                         (rev (AlwaysRelevantStreamingLevelsNeedingReplication node)))"
    using res(2,3) loop(2) v(2) same(2) by simp
  show "LogWarnings g'
           = LogWarnings g
             @ replicate (length (filter (\<lambda>R. AlwaysRelevantStreamingLevelActors g R = Some [])
                                    (AlwaysRelevantStreamingLevelsNeedingReplication node)))
                 EmptyRepListWarning"
    using res(1) loop(3) v(2) by simp
qed

lemma half_of_connections:
  "card {i. i < N \<and> bReplicatePS (int i) f} = (if even (uint f) then (N + 1) div 2 else N div 2)"
proof (induction N)
  case 0
  then show ?case by simp
next
  case (Suc N)
  have sel: "bReplicatePS (int N) f \<longleftrightarrow> (even N \<longleftrightarrow> even (uint f))"
    by (simp add: bReplicatePS_uint) presburger
  have fin: "finite {i. i < N \<and> bReplicatePS (int i) f}" by simp
  show ?case
  proof (cases "bReplicatePS (int N) f")
    case True
    then have "{i. i < Suc N \<and> bReplicatePS (int i) f} = insert N {i. i < N \<and> bReplicatePS (int i) f}"
      by (auto simp: less_Suc_eq)
    then have "card {i. i < Suc N \<and> bReplicatePS (int i) f} = Suc (card {i. i < N \<and> bReplicatePS (int i) f})"
      using fin by simp
    with Suc True sel show ?thesis by (auto elim!: evenE oddE)
  next
    case False
    then have "{i. i < Suc N \<and> bReplicatePS (int i) f} = {i. i < N \<and> bReplicatePS (int i) f}"
      by (auto simp: less_Suc_eq)
    with Suc False sel show ?thesis by (auto elim!: evenE oddE)
  qed
qed


lemmas gather_eval =
  AlwaysRelevant_GatherActorListsForConnection_def StreamingLevelStep_def
  GatherParams_def VisibleNode_def NewConnectionNode_def OnClientLevelVisibilityAdd_def
  FindOrAdd_def FConnectionReplicationActorInfo_default_def RemoveAtSwap_def MarkDormant_def
  InitialGraph_def

lemma GameState_policy:
  "GetClassNodeMapping P (Some GameState_Class)
     = (case P (Some GameState_Class) of Some m \<Rightarrow> m | None \<Rightarrow> RelevantAllConnections)"
  by (simp add: GameState_Class_def AActor_StaticClass_def PlainActor_def
        GetClassNodeMapping.simps SameRelevancy_def ShouldSpatialize_def split: option.splits)

lemma RegionGraph_levels:
  "AlwaysRelevantStreamingLevelActors RegionGraph = [''R1'' \<mapsto> [1, 2]]"
  "LogWarnings RegionGraph = []"
  by (simp_all add: RegionGraph_def RegionActor_def RouteAddNetworkActorToNodes_def
        GetMappingPolicy_def ClassMap_Get_def GameState_policy InitialGraph_def NAME_None_def
        ConditionalAdd_def Contains_def)

lemma region_example:
  "OutGatheredReplicationLists
     (snd (snd (AlwaysRelevant_GatherActorListsForConnection RegionGraph VisibleNode
                  (GatherParams 0 0 [] Map.empty)))) = [[], [1, 2]]"
  "AlwaysRelevantStreamingLevelsNeedingReplication
       (fst (snd (AlwaysRelevant_GatherActorListsForConnection RegionGraph VisibleNode
                  (GatherParams 0 0 [] Map.empty)))) = [''R1'']"
  "OutGatheredReplicationLists
       (snd (snd (AlwaysRelevant_GatherActorListsForConnection RegionGraph VisibleNode
                  (GatherParams 0 1 [] (MarkDormant (MarkDormant Map.empty 1) 2))))) = [[]]"
  "AlwaysRelevantStreamingLevelsNeedingReplication
       (fst (snd (AlwaysRelevant_GatherActorListsForConnection RegionGraph VisibleNode
                  (GatherParams 0 1 [] (MarkDormant (MarkDormant Map.empty 1) 2))))) = []"
  by (simp_all add: gather_eval RegionGraph_levels Let_def)

text \<open>
  C5 as stated fails: after actor 1 was added under \<open>R1\<close> and removed again,
  the list of \<open>R1\<close> exists and is empty, and a gather keeps tracking \<open>R1\<close>.
\<close>
theorem C5_empty_list_counterexample:
  "RouteRemoveNetworkActorToNodes (RouteAddNetworkActorToNodes InitialGraph (RegionActor 1)) (RegionActor 1)
     = Inr EmptiedGraph
   \<and> AlwaysRelevantStreamingLevelActors EmptiedGraph ''R1'' = Some []
   \<and> AlwaysRelevantStreamingLevelsNeedingReplication VisibleNode = [''R1'']
   \<and> AlwaysRelevantStreamingLevelsNeedingReplication
       (fst (snd (AlwaysRelevant_GatherActorListsForConnection EmptiedGraph VisibleNode
                  (GatherParams 0 0 [] Map.empty)))) = [''R1'']"
  by (simp add: gather_eval Let_def EmptiedGraph_def RegionActor_def RouteAddNetworkActorToNodes_def
        RouteRemoveNetworkActorToNodes_def GetMappingPolicy_def ClassMap_Get_def GameState_policy
        NAME_None_def ConditionalAdd_def Contains_def RemoveFast_def)

text \<open>
  C5 (as amended). A gather keeps exactly those tracked levels that stay
  tracked, and appends to the gathered lists the node's own list followed by
  the contributions of the tracked levels, last tracked level first. A level
  without a list is dropped from the tracked levels and contributes nothing.
  A level whose list exists and is empty stays tracked, contributes nothing
  and is logged as a warning. A level whose list is not empty and whose
  actors are all dormant on the connection is dropped and contributes nothing;
  any other level stays tracked and contributes its list. With the actors 1
  and 2 registered under \<open>R1\<close> and \<open>R1\<close> visible, the gather contributes
  \<open>[1, 2]\<close>; once both are dormant on the connection, the next gather
  contributes nothing for \<open>R1\<close> and stops tracking it.
\<close>
theorem C5_region_gated_contribution:
  assumes "AlwaysRelevant_GatherActorListsForConnection g node Params = (g', node', Params')"
  shows "set (AlwaysRelevantStreamingLevelsNeedingReplication node')
           = {R \<in> set (AlwaysRelevantStreamingLevelsNeedingReplication node).
                LevelStaysTracked (AlwaysRelevantStreamingLevelActors g)
                  (ActorInfoMap (ConnectionManager Params)) R}
       \<and> OutGatheredReplicationLists Params'
           = OutGatheredReplicationLists Params @ [ReplicationActorList node']
             @ concat (map (LevelContribution (AlwaysRelevantStreamingLevelActors g)
                              (ActorInfoMap (ConnectionManager Params)))
                         (rev (AlwaysRelevantStreamingLevelsNeedingReplication node)))
       \<and> LogWarnings g'
           = LogWarnings g
             @ replicate (length (filter (\<lambda>R. AlwaysRelevantStreamingLevelActors g R = Some [])
                                    (AlwaysRelevantStreamingLevelsNeedingReplication node)))
                 EmptyRepListWarning
       \<and> (M R = None \<longrightarrow> \<not> LevelStaysTracked M m R \<and> LevelContribution M m R = [])
       \<and> (M R = Some [] \<longrightarrow> LevelStaysTracked M m R \<and> LevelContribution M m R = [])
       \<and> (M R = Some l \<and> l \<noteq> [] \<and> (\<forall>a\<in>set l. IsDormantOnConnection m a) \<longrightarrow>
             \<not> LevelStaysTracked M m R \<and> LevelContribution M m R = [])
       \<and> (M R = Some l \<and> l \<noteq> [] \<and> \<not> (\<forall>a\<in>set l. IsDormantOnConnection m a) \<longrightarrow>
             LevelStaysTracked M m R \<and> LevelContribution M m R = [l])
       \<and> OutGatheredReplicationLists
           (snd (snd (AlwaysRelevant_GatherActorListsForConnection RegionGraph VisibleNode
                        (GatherParams 0 0 [] Map.empty)))) = [[], [1, 2]]
       \<and> AlwaysRelevantStreamingLevelsNeedingReplication
           (fst (snd (AlwaysRelevant_GatherActorListsForConnection RegionGraph VisibleNode
                        (GatherParams 0 0 [] Map.empty)))) = [''R1'']
       \<and> OutGatheredReplicationLists
           (snd (snd (AlwaysRelevant_GatherActorListsForConnection RegionGraph VisibleNode
                        (GatherParams 0 1 [] (MarkDormant (MarkDormant Map.empty 1) 2))))) = [[]]
       \<and> AlwaysRelevantStreamingLevelsNeedingReplication
           (fst (snd (AlwaysRelevant_GatherActorListsForConnection RegionGraph VisibleNode
                        (GatherParams 0 1 [] (MarkDormant (MarkDormant Map.empty 1) 2))))) = []"
proof -
  have c1: "M R = None \<longrightarrow> \<not> LevelStaysTracked M m R \<and> LevelContribution M m R = []"
    and c2: "M R = Some [] \<longrightarrow> LevelStaysTracked M m R \<and> LevelContribution M m R = []"
    and c3: "M R = Some l \<and> l \<noteq> [] \<and> (\<forall>a\<in>set l. IsDormantOnConnection m a) \<longrightarrow>
             \<not> LevelStaysTracked M m R \<and> LevelContribution M m R = []"
    and c4: "M R = Some l \<and> l \<noteq> [] \<and> \<not> (\<forall>a\<in>set l. IsDormantOnConnection m a) \<longrightarrow>
             LevelStaysTracked M m R \<and> LevelContribution M m R = [l]"
    by (simp_all add: LevelStaysTracked_def LevelContribution_def AllDormantOnConnection_def)
  show ?thesis
    by (intro conjI Gather_result(2)[OF assms] Gather_result(3)[OF assms]
          Gather_result(4)[OF assms] c1 c2 c3 c4 region_example)
qed

text \<open>The amended C5 on the graph with the actors 1 and 2 under \<open>R1\<close>.\<close>
theorem C5_region_gated_witness:
  "set (AlwaysRelevantStreamingLevelsNeedingReplication
          (fst (snd (AlwaysRelevant_GatherActorListsForConnection RegionGraph VisibleNode
                       (GatherParams 0 0 [] Map.empty)))))
     = {R \<in> set [''R1'']. LevelStaysTracked [''R1'' \<mapsto> [1, 2]] Map.empty R}
   \<and> [''R1'' \<mapsto> [1, 2 :: nat]] ''R1'' = Some [1, 2]
   \<and> \<not> (\<forall>a\<in>set [1, 2]. IsDormantOnConnection Map.empty a)
   \<and> LevelStaysTracked [''R1'' \<mapsto> [1, 2]] Map.empty ''R1''
   \<and> LevelContribution [''R1'' \<mapsto> [1, 2]] Map.empty ''R1'' = [[1, 2]]"
proof -
  have run: "AlwaysRelevant_GatherActorListsForConnection RegionGraph VisibleNode
               (GatherParams 0 0 [] Map.empty)
         = (fst (AlwaysRelevant_GatherActorListsForConnection RegionGraph VisibleNode
                       (GatherParams 0 0 [] Map.empty)),
            fst (snd (AlwaysRelevant_GatherActorListsForConnection RegionGraph VisibleNode
                       (GatherParams 0 0 [] Map.empty))),
            snd (snd (AlwaysRelevant_GatherActorListsForConnection RegionGraph VisibleNode
                       (GatherParams 0 0 [] Map.empty))))"
    by simp
  note t = C5_region_gated_contribution
             [OF run, where M = "[''R1'' \<mapsto> [1, 2]]" and R = "''R1''" and m = Map.empty
                and l = "[1, 2]"]
  have a: "[''R1'' \<mapsto> [1, 2 :: nat]] ''R1'' = Some [1, 2]" by simp
  have b: "\<not> (\<forall>a\<in>set [1, 2]. IsDormantOnConnection Map.empty a)"
    by (auto simp: IsDormantOnConnection_def)
  have c: "[1, 2 :: nat] \<noteq> []" by simp
  note imp = t[THEN conjunct2, THEN conjunct2, THEN conjunct2, THEN conjunct2, THEN conjunct2,
               THEN conjunct2, THEN conjunct1]
  have d: "LevelStaysTracked [''R1'' \<mapsto> [1, 2]] Map.empty ''R1''
       \<and> LevelContribution [''R1'' \<mapsto> [1, 2]] Map.empty ''R1'' = [[1, 2]]"
    by (rule mp[OF imp]) (intro conjI a c b)
  have e: "AlwaysRelevantStreamingLevelsNeedingReplication VisibleNode = [''R1'']"
    "ActorInfoMap (ConnectionManager (GatherParams 0 0 [] Map.empty)) = Map.empty"
    by (simp_all add: VisibleNode_def NewConnectionNode_def OnClientLevelVisibilityAdd_def
          GatherParams_def)
  from t[THEN conjunct1] have
    "set (AlwaysRelevantStreamingLevelsNeedingReplication
          (fst (snd (AlwaysRelevant_GatherActorListsForConnection RegionGraph VisibleNode
                       (GatherParams 0 0 [] Map.empty)))))
     = {R \<in> set [''R1'']. LevelStaysTracked [''R1'' \<mapsto> [1, 2]] Map.empty R}"
    unfolding e RegionGraph_levels .
  with a b d show ?thesis by (intro conjI) simp_all
qed

text \<open>
  C6. For a connection with a non-negative order number, the node's list holds
  exactly the viewers, their view targets, the pawns of the player
  controllers and, when \<open>(ConnectionOrderNum + ReplicationFrameNum) mod 2 = 0\<close>,
  their player states; the list is part of the gathered output. So in a
  selected frame the player state of every player controlled viewer is in the
  list. The test of the code is this parity test; a connection is selected in
  the next frame exactly when it is not selected in this one (also across the
  wrap of the frame counter); and of the connections 0 to N - 1 half are
  selected in a frame, rounded up in even frames and down in odd ones. The
  frequency limiter is no argument of the function.
\<close>
theorem C6_player_state_every_second_frame:
  assumes "0 \<le> ConnectionOrderNum (ConnectionManager Params)"
    and "AlwaysRelevant_GatherActorListsForConnection g node Params = (g', node', Params')"
  shows "set (ReplicationActorList node')
           = (\<Union>v\<in>set (Viewers Params).
                ViewerActors ((ConnectionOrderNum (ConnectionManager Params)
                                + uint (ReplicationFrameNum Params)) mod 2 = 0) v)
       \<and> ReplicationActorList node' \<in> set (OutGatheredReplicationLists Params')
       \<and> (v \<in> set (Viewers Params) \<and> InViewer_AsPlayerController v = Some PC
            \<and> PlayerState PC = Some PS
            \<and> (ConnectionOrderNum (ConnectionManager Params)
                  + uint (ReplicationFrameNum Params)) mod 2 = 0
          \<longrightarrow> PS \<in> set (ReplicationActorList node'))
       \<and> (bReplicatePS (ConnectionOrderNum (ConnectionManager Params)) (ReplicationFrameNum Params)
            \<longleftrightarrow> (ConnectionOrderNum (ConnectionManager Params)
                   + uint (ReplicationFrameNum Params)) mod 2 = 0)
       \<and> (bReplicatePS (ConnectionOrderNum (ConnectionManager Params)) (ReplicationFrameNum Params + 1)
            \<longleftrightarrow> \<not> bReplicatePS (ConnectionOrderNum (ConnectionManager Params))
                      (ReplicationFrameNum Params))
       \<and> card {i. i < N \<and> bReplicatePS (int i) (ReplicationFrameNum Params)}
           = (if even (uint (ReplicationFrameNum Params)) then (N + 1) div 2 else N div 2)"
proof -
  note par = bReplicatePS_parity[OF assms(1), of "ReplicationFrameNum Params"]
  have list: "set (ReplicationActorList node')
           = (\<Union>v\<in>set (Viewers Params).
                ViewerActors ((ConnectionOrderNum (ConnectionManager Params)
                                + uint (ReplicationFrameNum Params)) mod 2 = 0) v)"
    using Gather_result(1)[OF assms(2)] par by simp
  have out: "ReplicationActorList node' \<in> set (OutGatheredReplicationLists Params')"
    using Gather_result(3)[OF assms(2)] by simp
  have ps: "PS \<in> set (ReplicationActorList node')"
    if "v \<in> set (Viewers Params)" "InViewer_AsPlayerController v = Some PC"
       "PlayerState PC = Some PS"
       "(ConnectionOrderNum (ConnectionManager Params) + uint (ReplicationFrameNum Params)) mod 2 = 0"
  proof -
    from that(2,3,4) have "PS \<in> ViewerActors ((ConnectionOrderNum (ConnectionManager Params)
                                + uint (ReplicationFrameNum Params)) mod 2 = 0) v"
      by (simp add: ViewerActors_def)
    with that(1) list show ?thesis by blast
  qed
  have ps': "v \<in> set (Viewers Params) \<and> InViewer_AsPlayerController v = Some PC
            \<and> PlayerState PC = Some PS
            \<and> (ConnectionOrderNum (ConnectionManager Params)
                  + uint (ReplicationFrameNum Params)) mod 2 = 0
          \<longrightarrow> PS \<in> set (ReplicationActorList node')"
    using ps by (intro impI) (elim conjE)
  show ?thesis
    by (intro conjI list out ps' par
          bReplicatePS_alternates[OF assms(1), of "ReplicationFrameNum Params"]
          half_of_connections[of N "ReplicationFrameNum Params"])
qed

text \<open>C6 for connection 0 with one player controlled viewer, in the frames 0 and 1.\<close>
theorem C6_player_state_witness:
  "0 \<le> ConnectionOrderNum (ConnectionManager (GatherParams 0 0 [PlayerViewer] Map.empty))
   \<and> PlayerViewer \<in> set (Viewers (GatherParams 0 0 [PlayerViewer] Map.empty))
   \<and> InViewer_AsPlayerController PlayerViewer = Some \<lparr>PlayerState = Some 12, Pawn_AsCharacter = Some 11\<rparr>
   \<and> (ConnectionOrderNum (ConnectionManager (GatherParams 0 0 [PlayerViewer] Map.empty))
         + uint (ReplicationFrameNum (GatherParams 0 0 [PlayerViewer] Map.empty))) mod 2 = 0
   \<and> 12 \<in> set (ReplicationActorList
            (fst (snd (AlwaysRelevant_GatherActorListsForConnection InitialGraph NewConnectionNode
                         (GatherParams 0 0 [PlayerViewer] Map.empty)))))
   \<and> set (ReplicationActorList
            (fst (snd (AlwaysRelevant_GatherActorListsForConnection InitialGraph NewConnectionNode
                         (GatherParams 0 1 [PlayerViewer] Map.empty))))) = {10, 11}"
proof -
  have h: "0 \<le> ConnectionOrderNum (ConnectionManager (GatherParams 0 k [PlayerViewer] Map.empty))"
    "PlayerViewer \<in> set (Viewers (GatherParams 0 k [PlayerViewer] Map.empty))"
    "InViewer_AsPlayerController PlayerViewer
       = Some \<lparr>PlayerState = Some 12, Pawn_AsCharacter = Some 11\<rparr>"
    "PlayerState \<lparr>PlayerState = Some 12, Pawn_AsCharacter = Some 11\<rparr> = Some 12"
    for k
    by (simp_all add: GatherParams_def PlayerViewer_def)
  have sel: "(ConnectionOrderNum (ConnectionManager (GatherParams 0 0 [PlayerViewer] Map.empty))
         + uint (ReplicationFrameNum (GatherParams 0 0 [PlayerViewer] Map.empty))) mod 2 = 0"
    "\<not> (ConnectionOrderNum (ConnectionManager (GatherParams 0 1 [PlayerViewer] Map.empty))
         + uint (ReplicationFrameNum (GatherParams 0 1 [PlayerViewer] Map.empty))) mod 2 = 0"
    by (simp_all add: GatherParams_def)
  have run: "AlwaysRelevant_GatherActorListsForConnection InitialGraph NewConnectionNode P
         = (fst (AlwaysRelevant_GatherActorListsForConnection InitialGraph NewConnectionNode P),
            fst (snd (AlwaysRelevant_GatherActorListsForConnection InitialGraph NewConnectionNode P)),
            snd (snd (AlwaysRelevant_GatherActorListsForConnection InitialGraph NewConnectionNode P)))"
    for P by simp
  note t0 = C6_player_state_every_second_frame
              [OF h(1)[of 0] run, where v = PlayerViewer
                 and PC = "\<lparr>PlayerState = Some 12, Pawn_AsCharacter = Some 11\<rparr>" and PS = 12]
  note t1 = C6_player_state_every_second_frame[OF h(1)[of 1] run]
  note imp = t0[THEN conjunct2, THEN conjunct2, THEN conjunct1]
  have in0:
    "12 \<in> set (ReplicationActorList
            (fst (snd (AlwaysRelevant_GatherActorListsForConnection InitialGraph NewConnectionNode
                         (GatherParams 0 0 [PlayerViewer] Map.empty)))))"
    by (rule mp[OF imp]) (intro conjI h(2)[of 0] h(3) h(4) sel(1))
  from t1[THEN conjunct1] sel(2) have
    "set (ReplicationActorList
            (fst (snd (AlwaysRelevant_GatherActorListsForConnection InitialGraph NewConnectionNode
                         (GatherParams 0 1 [PlayerViewer] Map.empty)))))
       = (\<Union>v\<in>set (Viewers (GatherParams 0 1 [PlayerViewer] Map.empty)). ViewerActors False v)"
    by simp
  then have out1: "set (ReplicationActorList
            (fst (snd (AlwaysRelevant_GatherActorListsForConnection InitialGraph NewConnectionNode
                         (GatherParams 0 1 [PlayerViewer] Map.empty))))) = {10, 11}"
    by (auto simp: GatherParams_def PlayerViewer_def ViewerActors_def)
  from h(1)[of 0] h(2)[of 0] h(3) sel(1) in0 out1 show ?thesis
    by (intro conjI)
qed

end
